theory Spec2Isabelle
  imports Complex_Main "HOL-Library.AList"
begin

section \<open>Python values, text and exceptions\<close>

text \<open>
  The services pass around values typed \<open>Any\<close>: decoded JSON/YAML documents, entity
  values, response bodies. They are modelled by one datatype. A dict is an association
  list in insertion order, as Python iterates it; its keys are text (a YAML key that is
  not text is represented by its text). Text is the UTF-8 encoding of a \<open>str\<close>. A float
  is the real number it denotes, one of the two infinities, or NaN.
\<close>

datatype pyfloat = Finite real | PosInf | NegInf | NaN

text \<open>
  \<open>x < y\<close> and \<open>x >= y\<close> for a float \<open>x\<close> and a finite \<open>y\<close>: both are false when \<open>x\<close> is
  NaN.
\<close>

fun float_less :: "pyfloat \<Rightarrow> real \<Rightarrow> bool" where
  "float_less (Finite r) y = (r < y)"
| "float_less PosInf y = False"
| "float_less NegInf y = True"
| "float_less NaN y = False"

fun float_ge :: "pyfloat \<Rightarrow> real \<Rightarrow> bool" where
  "float_ge (Finite r) y = (y \<le> r)"
| "float_ge PosInf y = True"
| "float_ge NegInf y = False"
| "float_ge NaN y = False"

datatype pyval =
    VNone
  | VBool bool
  | VInt int
  | VFloat pyfloat
  | VStr string
  | VList "pyval list"
  | VDict "(string \<times> pyval) list"

type_synonym pydict = "(string \<times> pyval) list"

text \<open>Truth value testing, as \<open>if x:\<close> and \<open>not x\<close> do it.\<close>

fun py_truthy :: "pyval \<Rightarrow> bool" where
  "py_truthy VNone = False"
| "py_truthy (VBool b) = b"
| "py_truthy (VInt i) = (i \<noteq> 0)"
| "py_truthy (VFloat x) = (x \<noteq> Finite 0)"
| "py_truthy (VStr s) = (s \<noteq> [])"
| "py_truthy (VList xs) = (xs \<noteq> [])"
| "py_truthy (VDict d) = (d \<noteq> [])"

text \<open>The name of a value's type, as it stands in the message of a \<open>TypeError\<close>.\<close>

fun py_type_name :: "pyval \<Rightarrow> string" where
  "py_type_name VNone = ''NoneType''"
| "py_type_name (VBool b) = ''bool''"
| "py_type_name (VInt i) = ''int''"
| "py_type_name (VFloat r) = ''float''"
| "py_type_name (VStr s) = ''str''"
| "py_type_name (VList xs) = ''list''"
| "py_type_name (VDict d) = ''dict''"

text \<open>\<open>d.get(k)\<close> and \<open>d.get(k, default)\<close> on a dict.\<close>

definition dict_get :: "pydict \<Rightarrow> string \<Rightarrow> pyval" where
  "dict_get d k = (case map_of d k of Some v \<Rightarrow> v | None \<Rightarrow> VNone)"

definition dict_get_default :: "pydict \<Rightarrow> string \<Rightarrow> pyval \<Rightarrow> pyval" where
  "dict_get_default d k dflt = (case map_of d k of Some v \<Rightarrow> v | None \<Rightarrow> dflt)"

text \<open>Exceptions are values: the class that the handlers test, and the message \<open>str(e)\<close>.\<close>

datatype exn_kind =
    APIExecutionError
  | OpenAPIParserError
  | YAMLError
  | JSONDecodeError
  | TimeoutException
  | RequestError
  | ValueError
  | OverflowError
  | TypeError
  | AttributeError
  | KeyError
  | ValidationError
  | TemplateSyntaxError
  | UndefinedError
  | OtherException

datatype exn = Exn exn_kind string

fun exn_kind_of :: "exn \<Rightarrow> exn_kind" where
  "exn_kind_of (Exn k m) = k"

fun exn_str :: "exn \<Rightarrow> string" where
  "exn_str (Exn k m) = m"

text \<open>Whether an outcome is a returned value rather than a raised exception.\<close>

definition returned :: "exn + 'a \<Rightarrow> bool" where
  "returned outcome = (case outcome of Inr v \<Rightarrow> True | Inl e \<Rightarrow> False)"

text \<open>Decimal text of an integer, as \<open>str\<close> and an f-string print it.\<close>

definition digit_char :: "nat \<Rightarrow> char" where
  "digit_char d = ''0123456789'' ! d"

function show_nat :: "nat \<Rightarrow> string" where
  "show_nat n = (if n < 10 then [digit_char n] else show_nat (n div 10) @ [digit_char (n mod 10)])"
  by pat_completeness auto
termination
  by (relation "measure id") auto

declare show_nat.simps [simp del]

definition show_int :: "int \<Rightarrow> string" where
  "show_int i = (if i < 0 then CHR ''-'' # show_nat (nat (- i)) else show_nat (nat i))"

section \<open>The data model (models/schemas.py)\<close>

datatype HTTPMethod = GET | POST | PUT | PATCH | DELETE

text \<open>The \<open>.value\<close> of an \<open>HTTPMethod\<close> member.\<close>

fun http_method_value :: "HTTPMethod \<Rightarrow> string" where
  "http_method_value GET = ''GET''"
| "http_method_value POST = ''POST''"
| "http_method_value PUT = ''PUT''"
| "http_method_value PATCH = ''PATCH''"
| "http_method_value DELETE = ''DELETE''"

record ParameterMapping =
  entity_name :: string
  api_parameter :: string
  transform :: "string option"

record APIMapping =
  endpoint_path :: string
  http_method :: HTTPMethod
  parameter_mappings :: "ParameterMapping list"
  static_params :: pydict

record ResponseTemplate =
  tpl_template :: string
  tpl_error_template :: string
  tpl_no_data_template :: string

record Scenario =
  scenario_id :: string
  scenario_name :: string
  scenario_description :: string
  sample_questions :: "string list"
  required_entities :: "string list"
  api_mappings :: "APIMapping list"
  response_template :: "ResponseTemplate option"
  suggested_questions :: "string list option"
  suggested_entities :: "string list option"

record ExtractedEntity =
  ent_name :: string
  ent_value :: pyval
  ent_confidence :: pyfloat

datatype ParameterLocation = PATH | QUERY | HEADER | BODY

datatype ParameterType = STRING | INTEGER | NUMBER | BOOLEAN | ARRAY | OBJECT

record APIParameter =
  param_name :: string
  param_location :: ParameterLocation
  param_type :: ParameterType
  param_description :: string
  param_required :: bool
  param_default :: pyval
  param_example :: pyval
  param_enum :: "string list option"

record APIResponse =
  status_code :: int
  response_description :: string
  response_schema :: pydict
  response_example :: "pydict option"

record APIEndpoint =
  ep_path :: string
  ep_method :: HTTPMethod
  operation_id :: string
  ep_summary :: string
  ep_description :: string
  ep_tags :: "string list"
  ep_parameters :: "APIParameter list"
  request_body :: "pydict option"
  ep_responses :: "APIResponse list"
  suggested_description :: "string option"
  suggested_parameters :: "APIParameter list option"

record APISpec =
  spec_title :: string
  spec_version :: string
  spec_description :: string
  base_url :: string
  endpoints :: "APIEndpoint list"
  servers :: "(string \<times> string) list list"
  security_schemes :: pydict
  original_spec :: "pydict option"

section \<open>APIExecutor.execute_scenario (services/api_executor.py)\<close>

text \<open>
  \<open>entity_map = {e.name: e.value for e in extracted_entities}\<close>: a later entity of the
  same name replaces the value of an earlier one.
\<close>

definition build_entity_map :: "ExtractedEntity list \<Rightarrow> pydict" where
  "build_entity_map extracted_entities =
     fold (\<lambda>e m. AList.update (ent_name e) (ent_value e) m) extracted_entities []"

text \<open>The label \<open>f"{api_mapping.method.value} {api_mapping.endpoint_path}"\<close>.\<close>

definition endpoint_label :: "APIMapping \<Rightarrow> string" where
  "endpoint_label api_mapping =
     http_method_value (http_method api_mapping) @ '' '' @ endpoint_path api_mapping"

text \<open>
  The body of the loop: the \<open>try\<close> around one call and its three outcomes. The call is
  \<open>self._execute_api_call\<close>, a method that a subclass overrides (\<open>MockAPIExecutor\<close>), so
  it is a parameter here; its outcome is the value it returns or the exception it
  raises. \<open>except APIExecutionError\<close> is tested before \<open>except Exception\<close>.
\<close>

definition execution_result :: "APIMapping \<Rightarrow> exn + pyval \<Rightarrow> pydict" where
  "execution_result api_mapping outcome =
     (case outcome of
        Inr result \<Rightarrow>
          [(''endpoint'', VStr (endpoint_label api_mapping)),
           (''success'', VBool True),
           (''data'', result),
           (''error'', VNone)]
      | Inl e \<Rightarrow>
          if exn_kind_of e = APIExecutionError then
            [(''endpoint'', VStr (endpoint_label api_mapping)),
             (''success'', VBool False),
             (''data'', VNone),
             (''error'', VStr (exn_str e))]
          else
            [(''endpoint'', VStr (endpoint_label api_mapping)),
             (''success'', VBool False),
             (''data'', VNone),
             (''error'', VStr (''Unexpected error: '' @ exn_str e))])"

definition execute_scenario ::
  "(APIMapping \<Rightarrow> pydict \<Rightarrow> exn + pyval) \<Rightarrow> Scenario \<Rightarrow> ExtractedEntity list \<Rightarrow> pydict list" where
  "execute_scenario execute_api_call scenario extracted_entities =
     (let entity_map = build_entity_map extracted_entities
      in map (\<lambda>api_mapping. execution_result api_mapping (execute_api_call api_mapping entity_map))
           (api_mappings scenario))"

section \<open>Text operations and the Python runtime\<close>

text \<open>
  Text is a list of 8-bit characters, the UTF-8 encoding of the \<open>str\<close>. For a non-empty
  \<open>sub\<close> and \<open>old\<close> and a separator of one ASCII character, \<open>sub in s\<close>,
  \<open>s.replace(old, new)\<close>, \<open>s.split(sep)\<close> and \<open>s.startswith(p)\<close> on the encoded text
  are those of the \<open>str\<close>, since no encoded character is part of another one.
  \<open>py_lower\<close>, \<open>py_upper\<close> and \<open>py_strip\<close> are \<open>lower\<close>, \<open>upper\<close> and \<open>strip\<close> for text of
  ASCII characters only; for other text see \<open>str_lower\<close>, \<open>str_upper\<close>, \<open>str_strip\<close> below.
\<close>

fun py_contains :: "string \<Rightarrow> string \<Rightarrow> bool" where
  "py_contains sub [] = (sub = [])"
| "py_contains sub (c # cs) = (take (length sub) (c # cs) = sub \<or> py_contains sub cs)"

text \<open>
  \<open>s.replace(old, new)\<close>: the occurrences of \<open>old\<close> are replaced from the left, without
  overlap. For an empty \<open>old\<close>, \<open>new\<close> is put before every character and at the end.
\<close>

function py_replace :: "string \<Rightarrow> string \<Rightarrow> string \<Rightarrow> string" where
  "py_replace old new s =
     (if old = [] then new @ concat (map (\<lambda>c. c # new) s)
      else if s = [] then []
      else if take (length old) s = old then new @ py_replace old new (drop (length old) s)
      else hd s # py_replace old new (tl s))"
  by pat_completeness auto
termination
  by (relation "measure (\<lambda>(old, new, s). length s)") auto

declare py_replace.simps [simp del]

fun py_split :: "char \<Rightarrow> string \<Rightarrow> string list" where
  "py_split sep [] = [[]]"
| "py_split sep (c # cs) =
     (if c = sep then [] # py_split sep cs
      else (case py_split sep cs of
              w # ws \<Rightarrow> (c # w) # ws
            | [] \<Rightarrow> [[c]]))"

definition py_startswith :: "string \<Rightarrow> string \<Rightarrow> bool" where
  "py_startswith s p \<longleftrightarrow> take (length p) s = p"

definition py_lower :: "string \<Rightarrow> string" where
  "py_lower s =
     map (\<lambda>c. case map_of (zip ''ABCDEFGHIJKLMNOPQRSTUVWXYZ'' ''abcdefghijklmnopqrstuvwxyz'') c of
                 Some l \<Rightarrow> l | None \<Rightarrow> c) s"

definition py_upper :: "string \<Rightarrow> string" where
  "py_upper s =
     map (\<lambda>c. case map_of (zip ''abcdefghijklmnopqrstuvwxyz'' ''ABCDEFGHIJKLMNOPQRSTUVWXYZ'') c of
                 Some u \<Rightarrow> u | None \<Rightarrow> c) s"

definition py_isspace :: "char \<Rightarrow> bool" where
  "py_isspace c \<longleftrightarrow>
     c \<in> set [CHR '' '', CHR 0x09, CHR 0x0A, CHR 0x0B, CHR 0x0C, CHR 0x0D,
               CHR 0x1C, CHR 0x1D, CHR 0x1E, CHR 0x1F]"

definition py_strip :: "string \<Rightarrow> string" where
  "py_strip s = rev (dropWhile py_isspace (rev (dropWhile py_isspace s)))"

definition is_ascii :: "string \<Rightarrow> bool" where
  "is_ascii s = list_all (\<lambda>c. \<not> digit7 c) s"

text \<open>
  What the Python runtime and the standard library compute and the model does not: the
  text of a float and of a list or dict, the parsing of numbers, \<open>datetime.strptime\<close>
  followed by \<open>strftime\<close>, \<open>urllib.parse.urljoin\<close>, and \<open>lower\<close>, \<open>upper\<close> and \<open>strip\<close> on
  text that has a character outside ASCII (the Unicode case mappings and white space).
  They are the fields of a record that the functions below take as a parameter.
\<close>

record runtime =
  float_str :: "pyfloat \<Rightarrow> string"
  container_str :: "pyval \<Rightarrow> string"
  int_of_str :: "string \<Rightarrow> exn + int"
  float_of :: "pyval \<Rightarrow> exn + pyfloat"
  reformat_date :: "string \<Rightarrow> string \<Rightarrow> string \<Rightarrow> exn + string"
  urljoin :: "string \<Rightarrow> string \<Rightarrow> string"
  unicode_lower :: "string \<Rightarrow> string"
  unicode_upper :: "string \<Rightarrow> string"
  unicode_strip :: "string \<Rightarrow> string"

text \<open>\<open>s.lower()\<close>, \<open>s.upper()\<close> and \<open>s.strip()\<close> for any text.\<close>

definition str_lower :: "runtime \<Rightarrow> string \<Rightarrow> string" where
  "str_lower rt s = (if is_ascii s then py_lower s else unicode_lower rt s)"

definition str_upper :: "runtime \<Rightarrow> string \<Rightarrow> string" where
  "str_upper rt s = (if is_ascii s then py_upper s else unicode_upper rt s)"

definition str_strip :: "runtime \<Rightarrow> string \<Rightarrow> string" where
  "str_strip rt s = (if is_ascii s then py_strip s else unicode_strip rt s)"

text \<open>\<open>str(value)\<close>.\<close>

fun py_str :: "runtime \<Rightarrow> pyval \<Rightarrow> string" where
  "py_str rt VNone = ''None''"
| "py_str rt (VBool b) = (if b then ''True'' else ''False'')"
| "py_str rt (VInt i) = show_int i"
| "py_str rt (VFloat x) = float_str rt x"
| "py_str rt (VStr s) = s"
| "py_str rt (VList xs) = container_str rt (VList xs)"
| "py_str rt (VDict d) = container_str rt (VDict d)"

text \<open>
  \<open>int(value)\<close>: a finite float is cut towards zero, NaN and the infinities raise, text
  is parsed by the runtime.
\<close>

fun py_int :: "runtime \<Rightarrow> pyval \<Rightarrow> exn + int" where
  "py_int rt (VInt i) = Inr i"
| "py_int rt (VBool b) = Inr (if b then 1 else 0)"
| "py_int rt (VFloat (Finite r)) = Inr (if 0 \<le> r then \<lfloor>r\<rfloor> else \<lceil>r\<rceil>)"
| "py_int rt (VFloat NaN) = Inl (Exn ValueError ''cannot convert float NaN to integer'')"
| "py_int rt (VFloat PosInf) = Inl (Exn OverflowError ''cannot convert float infinity to integer'')"
| "py_int rt (VFloat NegInf) = Inl (Exn OverflowError ''cannot convert float infinity to integer'')"
| "py_int rt (VStr s) = int_of_str rt s"
| "py_int rt v =
     Inl (Exn TypeError
       (''int() argument must be a string, a bytes-like object or a real number, not '' @
        [CHR 0x27] @ py_type_name v @ [CHR 0x27]))"

section \<open>APIExecutor: building the request (services/api_executor.py)\<close>

text \<open>
  \<open>_apply_transform\<close>. The handler around the date conversion catches \<open>ValueError\<close> (and
  its subclass \<open>JSONDecodeError\<close>) and returns the value unchanged; a transform that
  starts with \<open>date_format:\<close> and has fewer than three parts falls through to the final
  \<open>return value\<close>.
\<close>

definition apply_transform :: "runtime \<Rightarrow> pyval \<Rightarrow> string \<Rightarrow> exn + pyval" where
  "apply_transform rt v t =
     (if t = ''lowercase'' then Inr (VStr (str_lower rt (py_str rt v)))
      else if t = ''uppercase'' then Inr (VStr (str_upper rt (py_str rt v)))
      else if t = ''trim'' then Inr (VStr (str_strip rt (py_str rt v)))
      else if t = ''int'' then
        (case py_int rt v of Inl e \<Rightarrow> Inl e | Inr i \<Rightarrow> Inr (VInt i))
      else if t = ''float'' then
        (case float_of rt v of Inl e \<Rightarrow> Inl e | Inr x \<Rightarrow> Inr (VFloat x))
      else if t = ''bool'' then
        Inr (VBool (str_lower rt (py_str rt v) \<in> set [''true'', ''1'', ''yes'']))
      else if py_startswith t ''date_format:'' then
        (let parts = py_split CHR '':'' t
         in if 3 \<le> length parts then
              (case reformat_date rt (py_str rt v) (parts ! 1) (parts ! 2) of
                 Inr formatted \<Rightarrow> Inr (VStr formatted)
               | Inl e \<Rightarrow>
                   if exn_kind_of e = ValueError \<or> exn_kind_of e = JSONDecodeError then Inr v
                   else Inl e)
            else Inr v)
      else Inr v)"

text \<open>
  The idiom \<open>if mapping.transform: value = self._apply_transform(value, mapping.transform)\<close>
  of the three builders; \<open>None\<close> and the empty text are false.
\<close>

definition transformed :: "runtime \<Rightarrow> ParameterMapping \<Rightarrow> pyval \<Rightarrow> exn + pyval" where
  "transformed rt mapping v =
     (case transform mapping of
        None \<Rightarrow> Inr v
      | Some t \<Rightarrow> if t \<noteq> [] then apply_transform rt v t else Inr v)"

text \<open>\<open>_find_endpoint\<close>: the first endpoint of the spec with this path and method.\<close>

definition find_endpoint :: "APISpec \<Rightarrow> string \<Rightarrow> HTTPMethod \<Rightarrow> APIEndpoint option" where
  "find_endpoint api_spec path m =
     find (\<lambda>endpoint. ep_path endpoint = path \<and> ep_method endpoint = m) (endpoints api_spec)"

text \<open>
  \<open>_build_url\<close>: the loop over the parameter mappings (a transform may raise), the loop
  over the static parameters, and the join with the base URL.
\<close>

fun build_url_mappings ::
  "runtime \<Rightarrow> pydict \<Rightarrow> ParameterMapping list \<Rightarrow> string \<Rightarrow> exn + string" where
  "build_url_mappings rt entity_map [] url_path = Inr url_path"
| "build_url_mappings rt entity_map (mapping # rest) url_path =
     (let placeholder = ''{'' @ api_parameter mapping @ ''}''
      in if py_contains placeholder url_path then
           (case transformed rt mapping
                   (dict_get_default entity_map (entity_name mapping) (VStr [])) of
              Inl e \<Rightarrow> Inl e
            | Inr v \<Rightarrow>
                build_url_mappings rt entity_map rest
                  (py_replace placeholder (py_str rt v) url_path))
         else build_url_mappings rt entity_map rest url_path)"

fun build_url_static :: "runtime \<Rightarrow> pydict \<Rightarrow> string \<Rightarrow> string" where
  "build_url_static rt [] url_path = url_path"
| "build_url_static rt ((param, v) # rest) url_path =
     (let placeholder = ''{'' @ param @ ''}''
      in if py_contains placeholder url_path then
           build_url_static rt rest (py_replace placeholder (py_str rt v) url_path)
         else build_url_static rt rest url_path)"

definition build_url_path :: "runtime \<Rightarrow> string \<Rightarrow> APIMapping \<Rightarrow> pydict \<Rightarrow> exn + string" where
  "build_url_path rt path api_mapping entity_map =
     (case build_url_mappings rt entity_map (parameter_mappings api_mapping) path of
        Inl e \<Rightarrow> Inl e
      | Inr url_path \<Rightarrow> Inr (build_url_static rt (static_params api_mapping) url_path))"

definition build_url ::
  "runtime \<Rightarrow> string \<Rightarrow> string \<Rightarrow> APIMapping \<Rightarrow> pydict \<Rightarrow> exn + string" where
  "build_url rt executor_base_url path api_mapping entity_map =
     (case build_url_path rt path api_mapping entity_map of
        Inl e \<Rightarrow> Inl e
      | Inr url_path \<Rightarrow>
          Inr (urljoin rt (executor_base_url @ ''/'') (dropWhile (\<lambda>c. c = CHR ''/'') url_path)))"

text \<open>
  \<open>_build_query_params\<close>. \<open>query_param_names\<close> is a set in the source and is only tested
  for membership. The inner loop with \<open>break\<close> over the endpoint's parameters stores the
  static parameter when some parameter of that name is a query parameter.
\<close>

fun query_mapped ::
  "runtime \<Rightarrow> string set \<Rightarrow> pydict \<Rightarrow> ParameterMapping list \<Rightarrow> pydict \<Rightarrow> exn + pydict" where
  "query_mapped rt query_param_names entity_map [] params = Inr params"
| "query_mapped rt query_param_names entity_map (mapping # rest) params =
     (if api_parameter mapping \<in> query_param_names then
        (let v = dict_get entity_map (entity_name mapping)
         in if v \<noteq> VNone then
              (case transformed rt mapping v of
                 Inl e \<Rightarrow> Inl e
               | Inr v' \<Rightarrow>
                   query_mapped rt query_param_names entity_map rest
                     (AList.update (api_parameter mapping) v' params))
            else query_mapped rt query_param_names entity_map rest params)
      else query_mapped rt query_param_names entity_map rest params)"

fun query_static :: "runtime \<Rightarrow> APIEndpoint option \<Rightarrow> pydict \<Rightarrow> pydict \<Rightarrow> pydict" where
  "query_static rt endpoint [] params = params"
| "query_static rt endpoint ((param, v) # rest) params =
     (if \<not> py_contains ''{'' (py_str rt v) then
        (case endpoint of
           Some ep \<Rightarrow>
             if list_ex (\<lambda>p. param_name p = param \<and> param_location p = QUERY) (ep_parameters ep)
             then query_static rt endpoint rest (AList.update param v params)
             else query_static rt endpoint rest params
         | None \<Rightarrow> query_static rt endpoint rest (AList.update param v params))
      else query_static rt endpoint rest params)"

definition build_query_params ::
  "runtime \<Rightarrow> APIEndpoint option \<Rightarrow> APIMapping \<Rightarrow> pydict \<Rightarrow> exn + pydict" where
  "build_query_params rt endpoint api_mapping entity_map =
     (case (case endpoint of
              Some ep \<Rightarrow>
                query_mapped rt
                  (set (map param_name
                          (filter (\<lambda>p. param_location p = QUERY) (ep_parameters ep))))
                  entity_map (parameter_mappings api_mapping) []
            | None \<Rightarrow> Inr []) of
        Inl e \<Rightarrow> Inl e
      | Inr params \<Rightarrow> Inr (query_static rt endpoint (static_params api_mapping) params))"

text \<open>
  A runtime for the worked examples: \<open>urljoin\<close> by concatenation, which is what it gives
  for a base that ends in \<open>/\<close> and a relative path of plain segments. \<open>int\<close> of text raises
  \<open>ValueError\<close>, as it does for the only texts that the examples convert, the empty text
  and text with a letter (the message shows the text between quotes). The other fields
  are reached by no example.
\<close>

definition example_runtime :: runtime where
  "example_runtime =
     \<lparr>float_str = (\<lambda>r. ''0.0''),
      container_str = (\<lambda>v. ''[]''),
      int_of_str =
        (\<lambda>s. Inl (Exn ValueError
               (''invalid literal for int() with base 10: '' @ [CHR 0x27] @ s @ [CHR 0x27]))),
      float_of = (\<lambda>v. Inl (Exn ValueError ''could not convert to float'')),
      reformat_date = (\<lambda>s i o'. Inl (Exn ValueError ''time data does not match format'')),
      urljoin = (\<lambda>base url. base @ url),
      unicode_lower = (\<lambda>s. s),
      unicode_upper = (\<lambda>s. s),
      unicode_strip = (\<lambda>s. s)\<rparr>"

section \<open>TemplateRenderer (services/template_renderer.py)\<close>

text \<open>
  The Jinja2 environment is outside the repository: \<open>self.env.from_string(template)\<close>
  followed by \<open>tpl.render(**data)\<close> is a parameter \<open>jinja\<close>, which returns the text or the
  exception raised (\<open>TemplateSyntaxError\<close>, \<open>UndefinedError\<close> or any other one; the
  message field stands for \<open>e.message\<close> and for \<open>str(e)\<close>).

  \<open>render\<close> calls itself on the error template with no error template of its own, so
  the recursion ends after one step. \<open>if error_template:\<close> is false for \<open>None\<close> and for
  the empty text.
\<close>

type_synonym jinja_env = "string \<Rightarrow> pydict \<Rightarrow> exn + string"

function render :: "jinja_env \<Rightarrow> string \<Rightarrow> pydict \<Rightarrow> string option \<Rightarrow> string" where
  "render jinja template data error_template =
     (case jinja template data of
        Inr rendered \<Rightarrow> rendered
      | Inl e \<Rightarrow>
          if exn_kind_of e = TemplateSyntaxError then
            (case error_template of
               Some et \<Rightarrow>
                 if et \<noteq> [] then
                   render jinja et [(''error'', VStr (''Template syntax error: '' @ exn_str e))] None
                 else ''Template error: '' @ exn_str e
             | None \<Rightarrow> ''Template error: '' @ exn_str e)
          else if exn_kind_of e = UndefinedError then
            (case error_template of
               Some et \<Rightarrow>
                 if et \<noteq> [] then
                   render jinja et [(''error'', VStr (''Missing data: '' @ exn_str e))] None
                 else ''Missing data: '' @ exn_str e
             | None \<Rightarrow> ''Missing data: '' @ exn_str e)
          else
            (case error_template of
               Some et \<Rightarrow>
                 if et \<noteq> [] then
                   render jinja et [(''error'', VStr (exn_str e))] None
                 else ''Render error: '' @ exn_str e
             | None \<Rightarrow> ''Render error: '' @ exn_str e))"
  by pat_completeness auto
termination
  by (relation "measure (\<lambda>(jinja, template, data, error_template).
        case error_template of None \<Rightarrow> 0 | Some et \<Rightarrow> Suc 0)") auto

declare render.simps [simp del]

text \<open>
  \<open>sep.join(items)\<close>: the items joined by \<open>sep\<close>; a \<open>TypeError\<close> at the first item that
  is not text. \<open>join_text\<close> is the join of items already known to be text.
\<close>

fun join_text :: "string \<Rightarrow> string list \<Rightarrow> string" where
  "join_text sep [] = []"
| "join_text sep [s] = s"
| "join_text sep (s # t # ts) = s @ sep @ join_text sep (t # ts)"

fun str_items :: "nat \<Rightarrow> pyval list \<Rightarrow> exn + string list" where
  "str_items i [] = Inr []"
| "str_items i (VStr s # items) =
     (case str_items (Suc i) items of Inl e \<Rightarrow> Inl e | Inr ss \<Rightarrow> Inr (s # ss))"
| "str_items i (v # items) =
     Inl (Exn TypeError (''sequence item '' @ show_nat i @ '': expected str instance, '' @
                         py_type_name v @ '' found''))"

definition py_join :: "string \<Rightarrow> pyval list \<Rightarrow> exn + string" where
  "py_join sep items =
     (case str_items 0 items of Inl e \<Rightarrow> Inl e | Inr ss \<Rightarrow> Inr (join_text sep ss))"

text \<open>\<open>data.update(other)\<close>: every item of \<open>other\<close> is stored in \<open>data\<close>, in order.\<close>

definition dict_update_all :: "pydict \<Rightarrow> pydict \<Rightarrow> pydict" where
  "dict_update_all data other = fold (\<lambda>(k, v) d. AList.update k v d) other data"

text \<open>The key \<open>f"result_{i}"\<close>.\<close>

definition result_key :: "nat \<Rightarrow> string" where
  "result_key i = ''result_'' @ show_nat i"

text \<open>
  The loop \<open>for i, result in enumerate(api_results)\<close> of \<open>render_api_response\<close>: \<open>i\<close> is
  the index of the head of the list that is left, \<open>data\<close> the dict built so far.
\<close>

fun collect_data :: "nat \<Rightarrow> pydict list \<Rightarrow> pydict \<Rightarrow> pydict" where
  "collect_data i [] data = data"
| "collect_data i (result # rest) data =
     (if py_truthy (dict_get result ''success'') \<and> py_truthy (dict_get result ''data'') then
        (let data1 =
               (if i = 0 then
                  (let merged = (case dict_get result ''data'' of
                                   VDict body \<Rightarrow> dict_update_all data body
                                 | _ \<Rightarrow> data)
                   in AList.update ''data'' (dict_get result ''data'') merged)
                else data)
         in collect_data (Suc i) rest
              (AList.update (result_key i) (dict_get result ''data'') data1))
      else collect_data (Suc i) rest data)"

text \<open>The helper data added before the main template is rendered.\<close>

definition add_helper_data :: "pydict list \<Rightarrow> pydict \<Rightarrow> pydict" where
  "add_helper_data api_results data =
     AList.update ''_error_count''
       (VInt (int (length (filter (\<lambda>r. \<not> py_truthy (dict_get r ''success'')) api_results))))
       (AList.update ''_success_count''
          (VInt (int (length (filter (\<lambda>r. py_truthy (dict_get r ''success'')) api_results))))
          (AList.update ''_results'' (VList (map VDict api_results)) data))"

text \<open>
  \<open>render_api_response\<close>. The only statement that can raise is the join of the error
  messages, so the outcome is a sum. The two template parameters that have defaults in
  the source are passed by the caller here.
\<close>

definition render_api_response ::
  "jinja_env \<Rightarrow> string \<Rightarrow> pydict list \<Rightarrow> string \<Rightarrow> string \<Rightarrow> exn + string" where
  "render_api_response jinja template api_results error_template no_data_template =
     (let errors = filter (\<lambda>r. \<not> py_truthy (dict_get r ''success'')) api_results
      in if errors \<noteq> [] \<and> \<not> list_ex (\<lambda>r. py_truthy (dict_get r ''success'')) api_results then
           (case py_join ''; ''
                   (map (\<lambda>r. dict_get_default r ''error'' (VStr ''Unknown error'')) errors) of
              Inl e \<Rightarrow> Inl e
            | Inr joined \<Rightarrow> Inr (render jinja error_template [(''error'', VStr joined)] None))
         else
           (let data = collect_data 0 api_results []
            in if data = [] then Inr no_data_template
               else Inr (render jinja template (add_helper_data api_results data)
                           (Some error_template))))"

text \<open>
  Notions used to state what \<open>render_api_response\<close> does. A result contributes to the
  context when the test \<open>result.get("success") and result.get("data")\<close> of the loop
  holds for it; \<open>failure_message\<close> is the text of a result's \<open>error\<close> entry (or the
  default of the \<open>get\<close>); \<open>first_binding r\<close> is the dict after the loop has handled the
  result \<open>r\<close> standing at index 0; \<open>later_bindings i rs\<close> are the \<open>result_<index>\<close> bindings that the
  loop makes for the results \<open>rs\<close> standing at the indices from \<open>i\<close> on.
\<close>

definition contributes :: "pydict \<Rightarrow> bool" where
  "contributes result \<longleftrightarrow>
     py_truthy (dict_get result ''success'') \<and> py_truthy (dict_get result ''data'')"

definition failure_message :: "pydict \<Rightarrow> string" where
  "failure_message result =
     (case dict_get_default result ''error'' (VStr ''Unknown error'') of
        VStr s \<Rightarrow> s
      | _ \<Rightarrow> [])"

definition first_binding :: "pydict \<Rightarrow> pydict" where
  "first_binding result =
     (if contributes result then
        AList.update (result_key 0) (dict_get result ''data'')
          (AList.update ''data'' (dict_get result ''data'')
             (case dict_get result ''data'' of
                VDict body \<Rightarrow> dict_update_all [] body
              | _ \<Rightarrow> []))
      else [])"

fun later_bindings :: "nat \<Rightarrow> pydict list \<Rightarrow> pydict" where
  "later_bindings i [] = []"
| "later_bindings i (result # rest) =
     (if contributes result then [(result_key i, dict_get result ''data'')] else []) @
     later_bindings (Suc i) rest"

text \<open>
  The dict that \<open>render_api_response\<close> hands to the main template, and the keys that
  the function itself binds in it.
\<close>

definition reserved_keys :: "pydict list \<Rightarrow> string set" where
  "reserved_keys api_results =
     {''data'', ''_results'', ''_success_count'', ''_error_count''} \<union>
     {result_key i | i. i < length api_results \<and> contributes (api_results ! i)}"


definition render_context :: "pydict list \<Rightarrow> pydict" where
  "render_context api_results = add_helper_data api_results (collect_data 0 api_results [])"

section \<open>Operations on values of unknown type\<close>

text \<open>
  The parser reads a decoded document whose parts may be of any type. Each operation on
  such a value returns the result or the exception that Python raises for a value of the
  wrong type. \<open>and_then\<close> is sequencing: an exception ends the computation.
\<close>

definition and_then :: "exn + 'a \<Rightarrow> ('a \<Rightarrow> exn + 'b) \<Rightarrow> exn + 'b" where
  "and_then r f = (case r of Inl e \<Rightarrow> Inl e | Inr v \<Rightarrow> f v)"

definition quoted :: "string \<Rightarrow> string" where
  "quoted s = [CHR 0x27] @ s @ [CHR 0x27]"

definition attribute_error :: "pyval \<Rightarrow> string \<Rightarrow> exn" where
  "attribute_error v a =
     Exn AttributeError (quoted (py_type_name v) @ '' object has no attribute '' @ quoted a)"

text \<open>
  The dict behind \<open>x.get(...)\<close> or \<open>x.items()\<close>: only a dict has the attribute \<open>a\<close>.
\<close>

definition as_dict :: "pyval \<Rightarrow> string \<Rightarrow> exn + pydict" where
  "as_dict x a = (case x of VDict d \<Rightarrow> Inr d | _ \<Rightarrow> Inl (attribute_error x a))"

definition py_get :: "pyval \<Rightarrow> string \<Rightarrow> pyval \<Rightarrow> exn + pyval" where
  "py_get x k dflt = and_then (as_dict x ''get'') (\<lambda>d. Inr (dict_get_default d k dflt))"

text \<open>\<open>k in x\<close> for a text \<open>k\<close>: a key of a dict, an item of a list, a part of a text.\<close>

fun py_in :: "string \<Rightarrow> pyval \<Rightarrow> exn + bool" where
  "py_in k (VDict d) = Inr (k \<in> set (map fst d))"
| "py_in k (VList xs) = Inr (VStr k \<in> set xs)"
| "py_in k (VStr s) = Inr (py_contains k s)"
| "py_in k v =
     Inl (Exn TypeError (''argument of type '' @ quoted (py_type_name v) @ '' is not iterable''))"

text \<open>\<open>x[k]\<close> for a text \<open>k\<close>.\<close>

fun py_getitem :: "pyval \<Rightarrow> string \<Rightarrow> exn + pyval" where
  "py_getitem (VDict d) k =
     (case map_of d k of Some v \<Rightarrow> Inr v | None \<Rightarrow> Inl (Exn KeyError (quoted k)))"
| "py_getitem (VList xs) k =
     Inl (Exn TypeError ''list indices must be integers or slices, not str'')"
| "py_getitem (VStr s) k =
     Inl (Exn TypeError (''string indices must be integers, not '' @ quoted ''str''))"
| "py_getitem v k =
     Inl (Exn TypeError (quoted (py_type_name v) @ '' object is not subscriptable''))"

text \<open>\<open>for item in x\<close>: the items of a list, the keys of a dict, the characters of a text.\<close>

fun py_iter :: "pyval \<Rightarrow> exn + pyval list" where
  "py_iter (VList xs) = Inr xs"
| "py_iter (VDict d) = Inr (map (\<lambda>kv. VStr (fst kv)) d)"
| "py_iter (VStr s) = Inr (map (\<lambda>c. VStr [c]) s)"
| "py_iter v = Inl (Exn TypeError (quoted (py_type_name v) @ '' object is not iterable''))"

text \<open>A value used as a dict key must be hashable: a list or a dict is not.\<close>

fun unhashable :: "pyval \<Rightarrow> exn option" where
  "unhashable (VList xs) = Some (Exn TypeError (''unhashable type: '' @ quoted ''list''))"
| "unhashable (VDict d) = Some (Exn TypeError (''unhashable type: '' @ quoted ''dict''))"
| "unhashable v = None"

text \<open>
  The validation that pydantic runs when a model object is built is outside the
  repository, and what it converts depends on its version: the validators of the two
  field types that the parser fills from the document are parameters. A
  \<open>dict[str, Any]\<close> field takes a dict, a \<open>list[str]\<close> field a list of texts.
\<close>

record pydantic =
  validate_str :: "pyval \<Rightarrow> exn + string"
  validate_bool :: "pyval \<Rightarrow> exn + bool"

fun validate_each :: "('a \<Rightarrow> exn + 'b) \<Rightarrow> 'a list \<Rightarrow> exn + 'b list" where
  "validate_each f [] = Inr []"
| "validate_each f (x # xs) =
     (case f x of
        Inl e \<Rightarrow> Inl e
      | Inr y \<Rightarrow> (case validate_each f xs of Inl e \<Rightarrow> Inl e | Inr ys \<Rightarrow> Inr (y # ys)))"

definition validate_str_list :: "pydantic \<Rightarrow> pyval \<Rightarrow> exn + string list" where
  "validate_str_list pyd v =
     (case v of
        VList xs \<Rightarrow> validate_each (validate_str pyd) xs
      | _ \<Rightarrow> Inl (Exn ValidationError ''Input should be a valid list''))"

definition validate_opt_str_list :: "pydantic \<Rightarrow> pyval \<Rightarrow> exn + string list option" where
  "validate_opt_str_list pyd v =
     (case v of
        VNone \<Rightarrow> Inr None
      | _ \<Rightarrow> and_then (validate_str_list pyd v) (\<lambda>xs. Inr (Some xs)))"

definition validate_dict :: "pyval \<Rightarrow> exn + pydict" where
  "validate_dict v =
     (case v of
        VDict d \<Rightarrow> Inr d
      | _ \<Rightarrow> Inl (Exn ValidationError ''Input should be a valid dictionary''))"

definition validate_opt_dict :: "pyval \<Rightarrow> exn + pydict option" where
  "validate_opt_dict v =
     (case v of
        VNone \<Rightarrow> Inr None
      | _ \<Rightarrow> and_then (validate_dict v) (\<lambda>d. Inr (Some d)))"

section \<open>OpenAPIParser (services/openapi_parser.py)\<close>

text \<open>
  The parser appends to \<open>self.warnings\<close>; no function of the parser reads the list back,
  and the model leaves it out.

  \<open>_resolve_ref\<close>: an external reference gives \<open>None\<close>; an internal one is followed part by
  part from \<open>{"components": components}\<close>, and gives the dict found or \<open>None\<close>.
\<close>

fun walk_ref :: "string list \<Rightarrow> pyval \<Rightarrow> pyval" where
  "walk_ref [] current = (case current of VDict d \<Rightarrow> VDict d | _ \<Rightarrow> VNone)"
| "walk_ref (part # parts) current =
     (case current of
        VDict d \<Rightarrow> (case map_of d part of Some v \<Rightarrow> walk_ref parts v | None \<Rightarrow> VNone)
      | _ \<Rightarrow> VNone)"

definition resolve_ref :: "pyval \<Rightarrow> pyval \<Rightarrow> exn + pyval" where
  "resolve_ref components ref =
     (case ref of
        VStr r \<Rightarrow>
          if \<not> py_startswith r ''#/'' then Inr VNone
          else Inr (walk_ref (tl (py_split CHR ''/'' r)) (VDict [(''components'', components)]))
      | _ \<Rightarrow> Inl (attribute_error ref ''startswith''))"

text \<open>
  The idiom \<open>if "$ref" in x: x = self._resolve_ref(x["$ref"], components)\<close>: the value to
  go on with, and whether a reference was followed.
\<close>

definition follow_ref :: "pyval \<Rightarrow> pyval \<Rightarrow> exn + (pyval \<times> bool)" where
  "follow_ref components x =
     and_then (py_in ''$ref'' x) (\<lambda>has_ref.
       if has_ref then
         and_then (py_getitem x ''$ref'') (\<lambda>ref.
         and_then (resolve_ref components ref) (\<lambda>resolved. Inr (resolved, True)))
       else Inr (x, False))"

text \<open>\<open>_map_type\<close> and the \<open>location_map\<close> of \<open>_parse_parameters\<close>: dict lookups with a default.\<close>

definition map_type :: "pyval \<Rightarrow> exn + ParameterType" where
  "map_type type_str =
     (case unhashable type_str of
        Some e \<Rightarrow> Inl e
      | None \<Rightarrow>
          Inr (if type_str = VStr ''string'' then STRING
               else if type_str = VStr ''integer'' then INTEGER
               else if type_str = VStr ''number'' then NUMBER
               else if type_str = VStr ''boolean'' then BOOLEAN
               else if type_str = VStr ''array'' then ARRAY
               else if type_str = VStr ''object'' then OBJECT
               else STRING))"

definition map_location :: "pyval \<Rightarrow> exn + ParameterLocation" where
  "map_location loc =
     (case unhashable loc of
        Some e \<Rightarrow> Inl e
      | None \<Rightarrow>
          Inr (if loc = VStr ''path'' then PATH
               else if loc = VStr ''query'' then QUERY
               else if loc = VStr ''header'' then HEADER
               else QUERY))"

text \<open>
  The body of the loop of \<open>_parse_parameters\<close>: \<open>None\<close> stands for \<open>continue\<close>. Once
  \<open>param.get\<close> and \<open>schema.get\<close> have returned, \<open>param\<close> and \<open>schema\<close> are dicts.
\<close>

definition parse_parameter :: "pydantic \<Rightarrow> pyval \<Rightarrow> pyval \<Rightarrow> exn + APIParameter option" where
  "parse_parameter pyd components param0 =
     and_then (follow_ref components param0) (\<lambda>(param, followed).
       if followed \<and> \<not> py_truthy param then Inr None
       else
         and_then (as_dict param ''get'') (\<lambda>pd.
         and_then (map_location (dict_get_default pd ''in'' (VStr ''query''))) (\<lambda>location.
         and_then (as_dict (dict_get_default pd ''schema'' (VDict [])) ''get'') (\<lambda>sd.
         and_then (map_type (dict_get_default sd ''type'' (VStr ''string''))) (\<lambda>ptype.
         and_then (validate_str pyd (dict_get_default pd ''name'' (VStr []))) (\<lambda>name.
         and_then (validate_str pyd (dict_get_default pd ''description'' (VStr []))) (\<lambda>description.
         and_then (validate_bool pyd (dict_get_default pd ''required'' (VBool False))) (\<lambda>required.
         and_then (validate_opt_str_list pyd (dict_get sd ''enum'')) (\<lambda>enum.
           Inr (Some
             \<lparr>param_name = name,
              param_location = location,
              param_type = ptype,
              param_description = description,
              param_required = required,
              param_default = dict_get sd ''default'',
              param_example =
                (if py_truthy (dict_get pd ''example'') then dict_get pd ''example''
                 else dict_get sd ''example''),
              param_enum = enum\<rparr>))))))))))"

fun parse_parameter_items :: "pydantic \<Rightarrow> pyval \<Rightarrow> pyval list \<Rightarrow> exn + APIParameter list" where
  "parse_parameter_items pyd components [] = Inr []"
| "parse_parameter_items pyd components (param # rest) =
     (case parse_parameter pyd components param of
        Inl e \<Rightarrow> Inl e
      | Inr parsed \<Rightarrow>
          (case parse_parameter_items pyd components rest of
             Inl e \<Rightarrow> Inl e
           | Inr result \<Rightarrow> Inr (case parsed of Some p \<Rightarrow> p # result | None \<Rightarrow> result)))"

definition parse_parameters :: "pydantic \<Rightarrow> pyval \<Rightarrow> pyval \<Rightarrow> exn + APIParameter list" where
  "parse_parameters pyd parameters components =
     and_then (py_iter parameters) (parse_parameter_items pyd components)"

text \<open>
  \<open>_parse_request_body\<close>. The loop over \<open>content.items()\<close> stores one entry per media
  type in \<open>result["content"]\<close>.
\<close>

fun parse_media_items :: "pyval \<Rightarrow> pydict \<Rightarrow> pydict \<Rightarrow> exn + pydict" where
  "parse_media_items components [] parsed = Inr parsed"
| "parse_media_items components ((media_type, media_content) # rest) parsed =
     (case and_then (as_dict media_content ''get'') (\<lambda>md.
             and_then (follow_ref components (dict_get_default md ''schema'' (VDict [])))
               (\<lambda>(schema, followed).
                  Inr (VDict [(''schema'', schema), (''example'', dict_get md ''example'')]))) of
        Inl e \<Rightarrow> Inl e
      | Inr entry \<Rightarrow> parse_media_items components rest (AList.update media_type entry parsed))"

definition parse_request_body :: "pyval \<Rightarrow> pyval \<Rightarrow> exn + pydict" where
  "parse_request_body request_body0 components =
     and_then (follow_ref components request_body0) (\<lambda>(request_body, followed).
       if followed \<and> \<not> py_truthy request_body then Inr []
       else
         and_then (as_dict request_body ''get'') (\<lambda>rd.
         and_then (as_dict (dict_get_default rd ''content'' (VDict [])) ''items'') (\<lambda>content.
         and_then (parse_media_items components content []) (\<lambda>parsed.
           Inr [(''required'', dict_get_default rd ''required'' (VBool False)),
                (''description'', dict_get_default rd ''description'' (VStr [])),
                (''content'', VDict parsed)]))))"

text \<open>
  \<open>_parse_responses\<close>. A status key that is not a number gives the code 200
  (\<open>except ValueError\<close>); the schema and the example are read under \<open>application/json\<close>.
\<close>

definition parse_status_code :: "runtime \<Rightarrow> string \<Rightarrow> exn + int" where
  "parse_status_code rt status_key =
     (case int_of_str rt status_key of
        Inr code \<Rightarrow> Inr code
      | Inl e \<Rightarrow>
          if exn_kind_of e = ValueError \<or> exn_kind_of e = JSONDecodeError then Inr 200
          else Inl e)"

definition parse_json_content :: "pyval \<Rightarrow> pyval \<Rightarrow> exn + (pyval \<times> pyval)" where
  "parse_json_content components content =
     and_then (py_in ''application/json'' content) (\<lambda>has_json.
       if has_json then
         and_then (py_getitem content ''application/json'') (\<lambda>json_content.
         and_then (as_dict json_content ''get'') (\<lambda>jd.
         and_then (follow_ref components (dict_get_default jd ''schema'' (VDict [])))
           (\<lambda>(schema, followed).
              Inr (if followed \<and> \<not> py_truthy schema then VDict [] else schema,
                   dict_get jd ''example''))))
       else Inr (VDict [], VNone))"

definition parse_response ::
  "runtime \<Rightarrow> pydantic \<Rightarrow> pyval \<Rightarrow> string \<Rightarrow> pyval \<Rightarrow> exn + APIResponse option" where
  "parse_response rt pyd components status_key response0 =
     and_then (follow_ref components response0) (\<lambda>(response, followed).
       if followed \<and> \<not> py_truthy response then Inr None
       else
         and_then (parse_status_code rt status_key) (\<lambda>code.
         and_then (as_dict response ''get'') (\<lambda>rd.
         and_then (parse_json_content components (dict_get_default rd ''content'' (VDict [])))
           (\<lambda>(schema, example).
         and_then (validate_str pyd (dict_get_default rd ''description'' (VStr []))) (\<lambda>description.
         and_then (validate_dict schema) (\<lambda>schema_dict.
         and_then (validate_opt_dict example) (\<lambda>example_dict.
           Inr (Some
             \<lparr>status_code = code,
              response_description = description,
              response_schema = schema_dict,
              response_example = example_dict\<rparr>))))))))"

fun parse_response_items ::
  "runtime \<Rightarrow> pydantic \<Rightarrow> pyval \<Rightarrow> pydict \<Rightarrow> exn + APIResponse list" where
  "parse_response_items rt pyd components [] = Inr []"
| "parse_response_items rt pyd components ((status_key, response) # rest) =
     (case parse_response rt pyd components status_key response of
        Inl e \<Rightarrow> Inl e
      | Inr parsed \<Rightarrow>
          (case parse_response_items rt pyd components rest of
             Inl e \<Rightarrow> Inl e
           | Inr result \<Rightarrow> Inr (case parsed of Some r \<Rightarrow> r # result | None \<Rightarrow> result)))"

definition parse_responses :: "runtime \<Rightarrow> pydantic \<Rightarrow> pyval \<Rightarrow> pyval \<Rightarrow> exn + APIResponse list" where
  "parse_responses rt pyd responses components =
     and_then (as_dict responses ''items'') (parse_response_items rt pyd components)"

text \<open>
  \<open>_generate_operation_id\<close>. \<open>re.sub(r'\{[^}]+\}', '', path)\<close> removes, from the left, every
  \<open>{\<close> that is followed by at least one character other than \<open>}\<close> and then a \<open>}\<close>, together
  with what it encloses; \<open>re.sub(r'_+', '_', s)\<close> makes one underscore of every run. The
  method is one of the lower-case ASCII keys that \<open>_parse_paths\<close> looks up.
\<close>

function remove_braced :: "string \<Rightarrow> string" where
  "remove_braced [] = []"
| "remove_braced (c # cs) =
     (if c = CHR ''{'' \<and> takeWhile (\<lambda>x. x \<noteq> CHR ''}'') cs \<noteq> [] \<and>
         dropWhile (\<lambda>x. x \<noteq> CHR ''}'') cs \<noteq> []
      then remove_braced (tl (dropWhile (\<lambda>x. x \<noteq> CHR ''}'') cs))
      else c # remove_braced cs)"
  by pat_completeness auto
termination
proof (relation "measure length")
  show "wf (measure length)" by simp
next
  fix c :: char and cs :: string
  have "length (dropWhile (\<lambda>x. x \<noteq> CHR ''}'') cs) \<le> length cs"
    by (rule length_dropWhile_le)
  then have "length (tl (dropWhile (\<lambda>x. x \<noteq> CHR ''}'') cs)) \<le> length cs"
    by simp
  then show "(tl (dropWhile (\<lambda>x. x \<noteq> CHR ''}'') cs), c # cs) \<in> measure length"
    by simp
next
  fix c :: char and cs :: string
  show "(cs, c # cs) \<in> measure length" by simp
qed

declare remove_braced.simps [simp del]

fun collapse_underscores :: "string \<Rightarrow> string" where
  "collapse_underscores (c # d # cs) =
     (if c = CHR ''_'' \<and> d = CHR ''_'' then collapse_underscores (d # cs)
      else c # collapse_underscores (d # cs))"
| "collapse_underscores cs = cs"

definition generate_operation_id :: "string \<Rightarrow> string \<Rightarrow> string" where
  "generate_operation_id path method_name =
     (let removed = remove_braced path;
          underscored = map (\<lambda>c. if c = CHR ''/'' then CHR ''_'' else c) removed;
          stripped = rev (dropWhile (\<lambda>c. c = CHR ''_'')
                       (rev (dropWhile (\<lambda>c. c = CHR ''_'') underscored)));
          clean_path = collapse_underscores stripped
      in if clean_path \<noteq> [] then py_lower method_name @ ''_'' @ clean_path
         else py_lower method_name)"

text \<open>
  The merge of \<open>_parse_operation\<close>: \<open>all_params = {p.name: p for p in path_params}\<close>, then
  \<open>all_params[p.name] = p\<close> for every operation-level parameter, then
  \<open>list(all_params.values())\<close>.
\<close>

definition merge_parameters :: "APIParameter list \<Rightarrow> APIParameter list \<Rightarrow> APIParameter list" where
  "merge_parameters path_params op_params =
     map snd
       (fold (\<lambda>p all_params. AList.update (param_name p) p all_params) op_params
          (fold (\<lambda>p all_params. AList.update (param_name p) p all_params) path_params []))"

text \<open>
  \<open>_parse_operation\<close>. The caller passes the upper-case name of one of the five methods,
  which is the value of the \<open>HTTPMethod\<close> member that \<open>HTTPMethod(method)\<close> gives; the
  model takes the member.
\<close>

definition parse_operation ::
  "runtime \<Rightarrow> pydantic \<Rightarrow> string \<Rightarrow> HTTPMethod \<Rightarrow> pyval \<Rightarrow> APIParameter list \<Rightarrow> pyval \<Rightarrow>
   exn + APIEndpoint" where
  "parse_operation rt pyd path m operation path_params components =
     and_then (as_dict operation ''get'') (\<lambda>od.
     and_then (parse_parameters pyd (dict_get_default od ''parameters'' (VList [])) components)
       (\<lambda>op_params.
     and_then (case map_of od ''requestBody'' of
                 Some body \<Rightarrow>
                   and_then (parse_request_body body components) (\<lambda>parsed. Inr (Some parsed))
               | None \<Rightarrow> Inr None) (\<lambda>parsed_body.
     and_then (parse_responses rt pyd (dict_get_default od ''responses'' (VDict [])) components)
       (\<lambda>responses.
     and_then (validate_str pyd
                 (if py_truthy (dict_get_default od ''operationId'' (VStr []))
                  then dict_get_default od ''operationId'' (VStr [])
                  else VStr (generate_operation_id path (http_method_value m)))) (\<lambda>op_id.
     and_then (validate_str pyd (dict_get_default od ''summary'' (VStr []))) (\<lambda>summary.
     and_then (validate_str pyd (dict_get_default od ''description'' (VStr []))) (\<lambda>description.
     and_then (validate_str_list pyd (dict_get_default od ''tags'' (VList []))) (\<lambda>tags.
       Inr \<lparr>ep_path = path,
            ep_method = m,
            operation_id = op_id,
            ep_summary = summary,
            ep_description = description,
            ep_tags = tags,
            ep_parameters = merge_parameters path_params op_params,
            request_body = parsed_body,
            ep_responses = responses,
            suggested_description = None,
            suggested_parameters = None\<rparr>))))))))"

text \<open>
  \<open>_parse_paths\<close>: for every path whose item is a dict, the path-level parameters and
  then one endpoint for each of \<open>get\<close>, \<open>post\<close>, \<open>put\<close>, \<open>patch\<close>, \<open>delete\<close> that is a key of the
  item, in this order.
\<close>

fun method_key :: "HTTPMethod \<Rightarrow> string" where
  "method_key GET = ''get''"
| "method_key POST = ''post''"
| "method_key PUT = ''put''"
| "method_key PATCH = ''patch''"
| "method_key DELETE = ''delete''"

fun parse_methods ::
  "runtime \<Rightarrow> pydantic \<Rightarrow> string \<Rightarrow> pydict \<Rightarrow> APIParameter list \<Rightarrow> pyval \<Rightarrow>
   HTTPMethod list \<Rightarrow> exn + APIEndpoint list" where
  "parse_methods rt pyd path path_item path_params components [] = Inr []"
| "parse_methods rt pyd path path_item path_params components (m # ms) =
     (case map_of path_item (method_key m) of
        Some operation \<Rightarrow>
          (case parse_operation rt pyd path m operation path_params components of
             Inl e \<Rightarrow> Inl e
           | Inr endpoint \<Rightarrow>
               (case parse_methods rt pyd path path_item path_params components ms of
                  Inl e \<Rightarrow> Inl e
                | Inr result \<Rightarrow> Inr (endpoint # result)))
      | None \<Rightarrow> parse_methods rt pyd path path_item path_params components ms)"

fun parse_path_items :: "runtime \<Rightarrow> pydantic \<Rightarrow> pyval \<Rightarrow> pydict \<Rightarrow> exn + APIEndpoint list" where
  "parse_path_items rt pyd components [] = Inr []"
| "parse_path_items rt pyd components ((path, VDict path_item) # rest) =
     (case and_then
             (parse_parameters pyd (dict_get_default path_item ''parameters'' (VList [])) components)
             (\<lambda>path_params.
                parse_methods rt pyd path path_item path_params components
                  [GET, POST, PUT, PATCH, DELETE]) of
        Inl e \<Rightarrow> Inl e
      | Inr found \<Rightarrow>
          (case parse_path_items rt pyd components rest of
             Inl e \<Rightarrow> Inl e
           | Inr result \<Rightarrow> Inr (found @ result)))"
| "parse_path_items rt pyd components ((path, other) # rest) =
     parse_path_items rt pyd components rest"

definition parse_paths :: "runtime \<Rightarrow> pydantic \<Rightarrow> pyval \<Rightarrow> pyval \<Rightarrow> exn + APIEndpoint list" where
  "parse_paths rt pyd paths components =
     and_then (as_dict paths ''items'') (parse_path_items rt pyd components)"

text \<open>
  \<open>_parse_spec\<close>. The statements run in the order of the source: the loop over the
  servers, the security schemes, the paths, and last the construction of the \<open>APISpec\<close>,
  where \<open>info.get\<close> is called and the fields are validated.
\<close>

fun parse_server_items :: "pyval list \<Rightarrow> exn + pydict list" where
  "parse_server_items [] = Inr []"
| "parse_server_items (server # rest) =
     (case as_dict server ''get'' of
        Inl e \<Rightarrow> Inl e
      | Inr sd \<Rightarrow>
          (case parse_server_items rest of
             Inl e \<Rightarrow> Inl e
           | Inr result \<Rightarrow>
               Inr ([(''url'', dict_get_default sd ''url'' (VStr [])),
                     (''description'', dict_get_default sd ''description'' (VStr []))] # result)))"

definition validate_str_dict :: "pydantic \<Rightarrow> pydict \<Rightarrow> exn + (string \<times> string) list" where
  "validate_str_dict pyd d =
     validate_each (\<lambda>kv. and_then (validate_str pyd (snd kv)) (\<lambda>s. Inr (fst kv, s))) d"

definition parse_spec :: "runtime \<Rightarrow> pydantic \<Rightarrow> pydict \<Rightarrow> exn + APISpec" where
  "parse_spec rt pyd spec =
     and_then (py_iter (dict_get_default spec ''servers'' (VList []))) (\<lambda>server_items.
     and_then (parse_server_items server_items) (\<lambda>server_dicts.
     and_then (py_in ''securitySchemes'' (dict_get_default spec ''components'' (VDict [])))
       (\<lambda>has_schemes.
     and_then (if has_schemes
               then py_getitem (dict_get_default spec ''components'' (VDict [])) ''securitySchemes''
               else Inr (VDict [])) (\<lambda>schemes.
     and_then (parse_paths rt pyd (dict_get_default spec ''paths'' (VDict []))
                 (dict_get_default spec ''components'' (VDict []))) (\<lambda>parsed_endpoints.
     and_then (as_dict (dict_get_default spec ''info'' (VDict [])) ''get'') (\<lambda>info.
     and_then (validate_str pyd (dict_get_default info ''title'' (VStr ''Untitled API''))) (\<lambda>title.
     and_then (validate_str pyd (dict_get_default info ''version'' (VStr ''1.0.0''))) (\<lambda>version.
     and_then (validate_str pyd (dict_get_default info ''description'' (VStr []))) (\<lambda>description.
     and_then (validate_str pyd
                 (case server_dicts of
                    first_server # others \<Rightarrow> dict_get first_server ''url''
                  | [] \<Rightarrow> VStr [])) (\<lambda>url.
     and_then (validate_each (validate_str_dict pyd) server_dicts) (\<lambda>server_list.
     and_then (validate_dict schemes) (\<lambda>scheme_dict.
       Inr \<lparr>spec_title = title,
            spec_version = version,
            spec_description = description,
            base_url = url,
            endpoints = parsed_endpoints,
            servers = server_list,
            security_schemes = scheme_dict,
            original_spec = Some spec\<rparr>))))))))))))"

text \<open>
  \<open>_validate_version\<close>. \<open>major_minor\<close> is \<open>".".join(openapi_version.split(".")[:2])\<close>; only a
  text has \<open>split\<close>.
\<close>

definition major_minor :: "string \<Rightarrow> string" where
  "major_minor openapi_version = join_text ''.'' (take 2 (py_split CHR ''.'' openapi_version))"

definition validate_version :: "pydict \<Rightarrow> exn + unit" where
  "validate_version spec =
     (let openapi_version = dict_get_default spec ''openapi'' (VStr [])
      in if \<not> py_truthy openapi_version then
           Inl (Exn OpenAPIParserError (''Missing '' @ quoted ''openapi'' @ '' version field''))
         else
           (case openapi_version of
              VStr v \<Rightarrow>
                if major_minor v \<notin> set [''3.0'', ''3.1''] then
                  Inl (Exn OpenAPIParserError
                        (''Unsupported OpenAPI version: '' @ v @
                         ''. Supported versions: 3.0, 3.1''))
                else Inr ()
            | _ \<Rightarrow> Inl (attribute_error openapi_version ''split'')))"

text \<open>
  \<open>parse\<close>. \<open>yaml.safe_load\<close> and \<open>json.loads\<close> are parameters: each returns the decoded
  document or the exception it raises. Only \<open>yaml.YAMLError\<close> and \<open>json.JSONDecodeError\<close>
  are turned into an \<open>OpenAPIParserError\<close>. In the test \<open>format.lower() == "yaml"\<close> the
  ASCII \<open>py_lower\<close> decides as \<open>lower\<close> does: no character outside ASCII has one of the
  letters \<open>y\<close>, \<open>a\<close>, \<open>m\<close>, \<open>l\<close> as its lower case.
\<close>

record decoders =
  yaml_safe_load :: "string \<Rightarrow> exn + pyval"
  json_loads :: "string \<Rightarrow> exn + pyval"

definition decode_content :: "decoders \<Rightarrow> string \<Rightarrow> string \<Rightarrow> exn + pyval" where
  "decode_content dec content fmt =
     (if py_lower fmt = ''yaml'' then yaml_safe_load dec content else json_loads dec content)"

definition parse :: "decoders \<Rightarrow> runtime \<Rightarrow> pydantic \<Rightarrow> string \<Rightarrow> string \<Rightarrow> exn + APISpec" where
  "parse dec rt pyd content fmt =
     (case decode_content dec content fmt of
        Inl e \<Rightarrow>
          if exn_kind_of e = YAMLError then
            Inl (Exn OpenAPIParserError (''Invalid YAML format: '' @ exn_str e))
          else if exn_kind_of e = JSONDecodeError then
            Inl (Exn OpenAPIParserError (''Invalid JSON format: '' @ exn_str e))
          else Inl e
      | Inr spec_dict \<Rightarrow>
          (case spec_dict of
             VDict spec \<Rightarrow> and_then (validate_version spec) (\<lambda>u. parse_spec rt pyd spec)
           | _ \<Rightarrow> Inl (Exn OpenAPIParserError ''API spec must be a valid object/dictionary'')))"

text \<open>
  Validators for the worked examples: a text field takes a text, a boolean field a
  boolean, and nothing is converted.
\<close>

definition strict_pydantic :: pydantic where
  "strict_pydantic =
     \<lparr>validate_str = (\<lambda>v. case v of
         VStr s \<Rightarrow> Inr s
       | _ \<Rightarrow> Inl (Exn ValidationError ''Input should be a valid string'')),
      validate_bool = (\<lambda>v. case v of
         VBool b \<Rightarrow> Inr b
       | _ \<Rightarrow> Inl (Exn ValidationError ''Input should be a valid boolean''))\<rparr>"

section \<open>QAAgent.answer (agents/qa_agent.py)\<close>

record ScenarioMatch =
  match_scenario :: Scenario
  match_confidence :: pyfloat
  extracted_entities :: "ExtractedEntity list"

record AgentResponse =
  answer_text :: string
  scenario_used :: "string option"
  api_calls_made :: "pydict list"
  raw_api_responses :: "pydict list"

text \<open>
  The AI service is outside the pipeline: its two coroutines are parameters, each
  returning a value or the exception it raises. A \<open>ScenarioMatch\<close> is an object, so
  \<open>not match_result\<close> holds for \<open>None\<close> only.
\<close>

record AIService =
  ai_match_scenario :: "string \<Rightarrow> Scenario list \<Rightarrow> exn + ScenarioMatch option"
  ai_generate_response :: "string \<Rightarrow> Scenario \<Rightarrow> pyval \<Rightarrow> exn + string"

text \<open>
  The float literal \<open>0.3\<close> of the test \<open>match_result.confidence < 0.3\<close>: the double
  nearest to three tenths.
\<close>

definition confidence_threshold :: real where
  "confidence_threshold = 5404319552844595 / 2 ^ 54"

text \<open>The three fixed texts of \<open>answer\<close> (UTF-8).\<close>

definition not_understood_text :: string where
  "not_understood_text =
     ''Xin l'' @ [CHR 0xE1, CHR 0xBB, CHR 0x97] @ ''i, t'' @ [CHR 0xC3, CHR 0xB4] @
     ''i kh'' @ [CHR 0xC3, CHR 0xB4] @ ''ng hi'' @ [CHR 0xE1, CHR 0xBB, CHR 0x83] @
     ''u c'' @ [CHR 0xC3, CHR 0xA2] @ ''u h'' @ [CHR 0xE1, CHR 0xBB, CHR 0x8F] @
     ''i c'' @ [CHR 0xE1, CHR 0xBB, CHR 0xA7] @ ''a b'' @
     [CHR 0xE1, CHR 0xBA, CHR 0xA1] @ ''n. Vui l'' @ [CHR 0xC3, CHR 0xB2] @ ''ng th'' @
     [CHR 0xE1, CHR 0xBB, CHR 0xAD] @ '' di'' @ [CHR 0xE1, CHR 0xBB, CHR 0x85] @
     ''n '' @ [CHR 0xC4, CHR 0x91, CHR 0xE1, CHR 0xBA, CHR 0xA1] @ ''t theo c'' @
     [CHR 0xC3, CHR 0xA1] @ ''ch kh'' @ [CHR 0xC3, CHR 0xA1] @ ''c.''"

definition provide_more_text :: string where
  "provide_more_text =
     ''Vui l'' @ [CHR 0xC3, CHR 0xB2] @ ''ng cung c'' @
     [CHR 0xE1, CHR 0xBA, CHR 0xA5] @ ''p th'' @ [CHR 0xC3, CHR 0xAA] @ ''m th'' @
     [CHR 0xC3, CHR 0xB4] @ ''ng tin: ''"

definition cannot_fetch_text :: string where
  "cannot_fetch_text =
     ''Xin l'' @ [CHR 0xE1, CHR 0xBB, CHR 0x97] @ ''i, kh'' @ [CHR 0xC3, CHR 0xB4] @
     ''ng th'' @ [CHR 0xE1, CHR 0xBB, CHR 0x83] @ '' l'' @
     [CHR 0xE1, CHR 0xBA, CHR 0xA5] @ ''y th'' @ [CHR 0xC3, CHR 0xB4] @ ''ng tin. L'' @
     [CHR 0xE1, CHR 0xBB, CHR 0x97] @ ''i: ''"

definition check_missing_entities :: "Scenario \<Rightarrow> ExtractedEntity list \<Rightarrow> string list" where
  "check_missing_entities scenario entities =
     filter (\<lambda>required. required \<notin> set (map ent_name entities)) (required_entities scenario)"

text \<open>
  Step 4 of \<open>answer\<close>: the answer text from the results, by the scenario's template or,
  without one, by the AI service or the joined errors.
\<close>

definition compose_answer ::
  "AIService \<Rightarrow> jinja_env \<Rightarrow> string \<Rightarrow> Scenario \<Rightarrow> pydict list \<Rightarrow> exn + string" where
  "compose_answer ai jinja question scenario api_results =
     (case response_template scenario of
        Some tpl \<Rightarrow>
          render_api_response jinja (tpl_template tpl) api_results
            (tpl_error_template tpl) (tpl_no_data_template tpl)
      | None \<Rightarrow>
          (let successful_data =
                 map (\<lambda>r. dict_get r ''data'')
                   (filter (\<lambda>r. py_truthy (dict_get r ''success'') \<and> py_truthy (dict_get r ''data''))
                      api_results)
           in if successful_data \<noteq> [] then
                ai_generate_response ai question scenario
                  (if length successful_data = 1 then hd successful_data
                   else VList successful_data)
              else
                (case py_join ''; ''
                        (map (\<lambda>r. dict_get_default r ''error'' (VStr ''Unknown error''))
                           (filter (\<lambda>r. \<not> py_truthy (dict_get r ''success'')) api_results)) of
                   Inl e \<Rightarrow> Inl e
                 | Inr joined \<Rightarrow> Inr (cannot_fetch_text @ joined))))"

text \<open>
  \<open>answer\<close>. \<open>call\<close> is the \<open>_execute_api_call\<close> of the agent's executor, \<open>scenarios\<close> is
  \<open>self.config.scenarios\<close>. The entries \<open>r["endpoint"]\<close> and \<open>r["success"]\<close> are read from
  the results of \<open>execute_scenario\<close>, which always have them.
\<close>

definition answer ::
  "AIService \<Rightarrow> jinja_env \<Rightarrow> (APIMapping \<Rightarrow> pydict \<Rightarrow> exn + pyval) \<Rightarrow> Scenario list \<Rightarrow>
   string \<Rightarrow> exn + AgentResponse" where
  "answer ai jinja call scenarios question =
     (case ai_match_scenario ai question scenarios of
        Inl e \<Rightarrow> Inl e
      | Inr match_result \<Rightarrow>
          (case match_result of
             None \<Rightarrow>
               Inr \<lparr>answer_text = not_understood_text, scenario_used = None,
                    api_calls_made = [], raw_api_responses = []\<rparr>
           | Some found \<Rightarrow>
               if float_less (match_confidence found) confidence_threshold then
                 Inr \<lparr>answer_text = not_understood_text, scenario_used = None,
                      api_calls_made = [], raw_api_responses = []\<rparr>
               else
                 (let scenario = match_scenario found;
                      entities = extracted_entities found;
                      missing_entities = check_missing_entities scenario entities
                  in if missing_entities \<noteq> [] then
                       Inr \<lparr>answer_text = provide_more_text @ join_text '', '' missing_entities,
                            scenario_used = Some (scenario_name scenario),
                            api_calls_made = [], raw_api_responses = []\<rparr>
                     else
                       (let api_results = execute_scenario call scenario entities
                        in case compose_answer ai jinja question scenario api_results of
                             Inl e \<Rightarrow> Inl e
                           | Inr text \<Rightarrow>
                               Inr \<lparr>answer_text = text,
                                    scenario_used = Some (scenario_name scenario),
                                    api_calls_made =
                                      map (\<lambda>r. [(''endpoint'', dict_get r ''endpoint''),
                                                (''success'', dict_get r ''success'')])
                                        api_results,
                                    raw_api_responses = api_results\<rparr>))))"

text \<open>
  A scenario and an AI service for the worked examples: the service matches every
  question to the scenario, with the given confidence and entities.
\<close>

definition example_scenario :: Scenario where
  "example_scenario =
     \<lparr>scenario_id = ''s1'', scenario_name = ''product'', scenario_description = [],
      sample_questions = [], required_entities = [''productId''],
      api_mappings =
        [\<lparr>endpoint_path = ''/products/{id}'', http_method = GET,
          parameter_mappings =
            [\<lparr>entity_name = ''productId'', api_parameter = ''id'', transform = None\<rparr>],
          static_params = []\<rparr>],
      response_template = None, suggested_questions = None, suggested_entities = None\<rparr>"

definition example_ai :: "pyfloat \<Rightarrow> ExtractedEntity list \<Rightarrow> AIService" where
  "example_ai confidence entities =
     \<lparr>ai_match_scenario =
        (\<lambda>question scenarios.
           Inr (Some \<lparr>match_scenario = example_scenario, match_confidence = confidence,
                      extracted_entities = entities\<rparr>)),
      ai_generate_response = (\<lambda>question scenario data. Inr ''generated'')\<rparr>"

section \<open>Path templates\<close>

text \<open>
  Notions used to state what \<open>_build_url\<close> does to the placeholders of a path. A path
  template is a list of segments: literal text without \<open>{\<close>, and holes \<open>{name}\<close> whose name
  has no brace. \<open>hole_text\<close> follows the words of the specification: a hole is filled
  from the first parameter mapping whose target is its name (the entity value, or the
  empty text when the entity is absent, transformed if a transform is declared), else
  from the static parameter of that name, else it stays as it is. \<open>hole_ok\<close> says that the
  value that fills a hole exists (its transform does not raise) and that its text brings
  no new \<open>{\<close> into the path.
\<close>

datatype segment = Lit string | Hole string

fun segment_source :: "segment \<Rightarrow> string" where
  "segment_source (Lit s) = s"
| "segment_source (Hole n) = ''{'' @ n @ ''}''"

definition render_segments :: "segment list \<Rightarrow> string" where
  "render_segments segs = concat (map segment_source segs)"

definition brace_free :: "string \<Rightarrow> bool" where
  "brace_free s \<longleftrightarrow> CHR ''{'' \<notin> set s \<and> CHR ''}'' \<notin> set s"

fun wf_segment :: "segment \<Rightarrow> bool" where
  "wf_segment (Lit s) = (CHR ''{'' \<notin> set s)"
| "wf_segment (Hole n) = brace_free n"

definition wf_template :: "segment list \<Rightarrow> bool" where
  "wf_template segs = list_all wf_segment segs"

definition mapping_value :: "runtime \<Rightarrow> pydict \<Rightarrow> ParameterMapping \<Rightarrow> exn + pyval" where
  "mapping_value rt entity_map mapping =
     transformed rt mapping (dict_get_default entity_map (entity_name mapping) (VStr []))"

definition hole_text :: "runtime \<Rightarrow> APIMapping \<Rightarrow> pydict \<Rightarrow> string \<Rightarrow> string" where
  "hole_text rt api_mapping entity_map n =
     (case find (\<lambda>m. api_parameter m = n) (parameter_mappings api_mapping) of
        Some m \<Rightarrow>
          (case mapping_value rt entity_map m of
             Inr v \<Rightarrow> py_str rt v
           | Inl e \<Rightarrow> ''{'' @ n @ ''}'')
      | None \<Rightarrow>
          (case map_of (static_params api_mapping) n of
             Some v \<Rightarrow> py_str rt v
           | None \<Rightarrow> ''{'' @ n @ ''}''))"

definition hole_ok :: "runtime \<Rightarrow> APIMapping \<Rightarrow> pydict \<Rightarrow> string \<Rightarrow> bool" where
  "hole_ok rt api_mapping entity_map n =
     (case find (\<lambda>m. api_parameter m = n) (parameter_mappings api_mapping) of
        Some m \<Rightarrow>
          (case mapping_value rt entity_map m of
             Inr v \<Rightarrow> CHR ''{'' \<notin> set (py_str rt v)
           | Inl e \<Rightarrow> False)
      | None \<Rightarrow>
          (case map_of (static_params api_mapping) n of
             Some v \<Rightarrow> CHR ''{'' \<notin> set (py_str rt v)
           | None \<Rightarrow> True))"

fun filled_segment :: "runtime \<Rightarrow> APIMapping \<Rightarrow> pydict \<Rightarrow> segment \<Rightarrow> string" where
  "filled_segment rt api_mapping entity_map (Lit s) = s"
| "filled_segment rt api_mapping entity_map (Hole n) = hole_text rt api_mapping entity_map n"

definition fill_template :: "runtime \<Rightarrow> APIMapping \<Rightarrow> pydict \<Rightarrow> segment list \<Rightarrow> string" where
  "fill_template rt api_mapping entity_map segs =
     concat (map (filled_segment rt api_mapping entity_map) segs)"

text \<open>A template in which the holes of one name have been filled by a text.\<close>

fun subst_hole :: "string \<Rightarrow> string \<Rightarrow> segment \<Rightarrow> segment" where
  "subst_hole m v (Lit s) = Lit s"
| "subst_hole m v (Hole n) = (if n = m then Lit v else Hole n)"

text \<open>
  The template after the first loop of \<open>_build_url\<close> (the parameter mappings) and after
  the second one (the static parameters).
\<close>

fun fill_from_mappings ::
  "runtime \<Rightarrow> pydict \<Rightarrow> ParameterMapping list \<Rightarrow> segment \<Rightarrow> segment" where
  "fill_from_mappings rt entity_map ms (Lit s) = Lit s"
| "fill_from_mappings rt entity_map ms (Hole n) =
     (case find (\<lambda>m. api_parameter m = n) ms of
        Some m \<Rightarrow>
          (case mapping_value rt entity_map m of
             Inr v \<Rightarrow> Lit (py_str rt v)
           | Inl e \<Rightarrow> Hole n)
      | None \<Rightarrow> Hole n)"

fun fill_from_static :: "runtime \<Rightarrow> pydict \<Rightarrow> segment \<Rightarrow> segment" where
  "fill_from_static rt statics (Lit s) = Lit s"
| "fill_from_static rt statics (Hole n) =
     (case map_of statics n of
        Some v \<Rightarrow> Lit (py_str rt v)
      | None \<Rightarrow> Hole n)"

section \<open>Decimal text is injective\<close>

lemma digit_char_inj: "a < 10 \<Longrightarrow> b < 10 \<Longrightarrow> digit_char a = digit_char b \<Longrightarrow> a = b"
proof -
  have d: "distinct ''0123456789''" by simp
  assume "a < 10" "b < 10" "digit_char a = digit_char b"
  then show ?thesis
    using d by (simp add: digit_char_def nth_eq_iff_index_eq)
qed

lemma show_nat_nonempty: "show_nat n \<noteq> []"
  by (subst show_nat.simps) simp

lemma show_nat_inj: "show_nat n = show_nat m \<Longrightarrow> n = m"
proof (induction n arbitrary: m rule: show_nat.induct)
  case (1 n)
  show ?case
  proof (cases "n < 10")
    case True
    show ?thesis
    proof (cases "m < 10")
      case True
      with \<open>n < 10\<close> "1.prems" show ?thesis
        by (simp add: show_nat.simps [of n] show_nat.simps [of m] digit_char_inj)
    next
      case False
      with \<open>n < 10\<close> "1.prems" show_nat_nonempty [of "m div 10"] show ?thesis
        by (simp add: show_nat.simps [of n] show_nat.simps [of m])
    qed
  next
    case False
    show ?thesis
    proof (cases "m < 10")
      case True
      with \<open>\<not> n < 10\<close> "1.prems" show_nat_nonempty [of "n div 10"] show ?thesis
        by (simp add: show_nat.simps [of n] show_nat.simps [of m])
    next
      case mf: False
      from False mf "1.prems"
      have e: "show_nat (n div 10) = show_nat (m div 10)" "digit_char (n mod 10) = digit_char (m mod 10)"
        by (simp_all add: show_nat.simps [of n] show_nat.simps [of m])
      from "1.IH" [OF False e(1)] have "n div 10 = m div 10" .
      moreover from e(2) have "n mod 10 = m mod 10"
        by (simp add: digit_char_inj)
      ultimately show ?thesis
        by (metis div_mult_mod_eq)
    qed
  qed
qed

lemma result_key_inj: "result_key i = result_key j \<Longrightarrow> i = j"
  by (simp add: result_key_def show_nat_inj)

section \<open>Properties of execute_scenario\<close>

lemma execution_result_success:
  "dict_get (execution_result am outcome) ''success'' = VBool (returned outcome)"
  by (cases outcome) (simp_all add: execution_result_def dict_get_def returned_def)

lemma execution_result_endpoint:
  "dict_get (execution_result am outcome) ''endpoint'' = VStr (endpoint_label am)"
  by (cases outcome) (simp_all add: execution_result_def dict_get_def)

lemma execution_result_keys:
  "map fst (execution_result am outcome) = [''endpoint'', ''success'', ''data'', ''error'']"
  by (cases outcome) (simp_all add: execution_result_def)

lemma execution_result_failed:
  "dict_get (execution_result am (Inl e)) ''data'' = VNone \<and>
   (\<exists>s. dict_get (execution_result am (Inl e)) ''error'' = VStr s)"
  by (simp add: execution_result_def dict_get_def)

lemma execution_result_succeeded:
  "dict_get (execution_result am (Inr v)) ''data'' = v \<and>
   dict_get (execution_result am (Inr v)) ''error'' = VNone"
  by (simp add: execution_result_def dict_get_def)

text \<open>
  C1. For every scenario and entity list, and whatever each call does, the returned list
  has one result per mapping of \<open>api_mappings\<close>, in the same order. The model of
  \<open>execute_scenario\<close> returns a plain list: an exception of a call never leaves the loop.
  The result at position \<open>i\<close> is made from the outcome of the call on mapping \<open>i\<close> alone:
  its success flag is true exactly when that call returned, so a failed call gives a
  result with \<open>success = False\<close> at its own position and every other mapping is still
  called.
\<close>

theorem execute_scenario_one_result_per_mapping:
  "length (execute_scenario call scenario entities) = length (api_mappings scenario) \<and>
   (\<forall>i < length (api_mappings scenario).
      execute_scenario call scenario entities ! i =
        execution_result (api_mappings scenario ! i)
          (call (api_mappings scenario ! i) (build_entity_map entities)) \<and>
      dict_get (execute_scenario call scenario entities ! i) ''success'' =
        VBool (returned (call (api_mappings scenario ! i) (build_entity_map entities))))"
  by (simp add: execute_scenario_def Let_def execution_result_success)

theorem execute_scenario_one_result_per_mapping_witness:
  "length (execute_scenario
      (\<lambda>am em. if endpoint_path am = ''/orders''
                then Inl (Exn APIExecutionError ''API returned error 500: down'')
                else Inr (VDict [(''name'', VStr ''Laptop'')]))
      \<lparr>scenario_id = ''s1'', scenario_name = ''order and product'', scenario_description = [],
        sample_questions = [], required_entities = [],
        api_mappings =
          [\<lparr>endpoint_path = ''/orders'', http_method = GET, parameter_mappings = [], static_params = []\<rparr>,
           \<lparr>endpoint_path = ''/products'', http_method = GET, parameter_mappings = [], static_params = []\<rparr>],
        response_template = None, suggested_questions = None, suggested_entities = None\<rparr>
      []) = 2 \<and>
   dict_get (execute_scenario
      (\<lambda>am em. if endpoint_path am = ''/orders''
                then Inl (Exn APIExecutionError ''API returned error 500: down'')
                else Inr (VDict [(''name'', VStr ''Laptop'')]))
      \<lparr>scenario_id = ''s1'', scenario_name = ''order and product'', scenario_description = [],
        sample_questions = [], required_entities = [],
        api_mappings =
          [\<lparr>endpoint_path = ''/orders'', http_method = GET, parameter_mappings = [], static_params = []\<rparr>,
           \<lparr>endpoint_path = ''/products'', http_method = GET, parameter_mappings = [], static_params = []\<rparr>],
        response_template = None, suggested_questions = None, suggested_entities = None\<rparr>
      [] ! 0) ''success'' = VBool False \<and>
   dict_get (execute_scenario
      (\<lambda>am em. if endpoint_path am = ''/orders''
                then Inl (Exn APIExecutionError ''API returned error 500: down'')
                else Inr (VDict [(''name'', VStr ''Laptop'')]))
      \<lparr>scenario_id = ''s1'', scenario_name = ''order and product'', scenario_description = [],
        sample_questions = [], required_entities = [],
        api_mappings =
          [\<lparr>endpoint_path = ''/orders'', http_method = GET, parameter_mappings = [], static_params = []\<rparr>,
           \<lparr>endpoint_path = ''/products'', http_method = GET, parameter_mappings = [], static_params = []\<rparr>],
        response_template = None, suggested_questions = None, suggested_entities = None\<rparr>
      [] ! 1) ''success'' = VBool True"
  using execute_scenario_one_result_per_mapping
    [of "\<lambda>am em. if endpoint_path am = ''/orders''
                then Inl (Exn APIExecutionError ''API returned error 500: down'')
                else Inr (VDict [(''name'', VStr ''Laptop'')])"
        "\<lparr>scenario_id = ''s1'', scenario_name = ''order and product'', scenario_description = [],
        sample_questions = [], required_entities = [],
        api_mappings =
          [\<lparr>endpoint_path = ''/orders'', http_method = GET, parameter_mappings = [], static_params = []\<rparr>,
           \<lparr>endpoint_path = ''/products'', http_method = GET, parameter_mappings = [], static_params = []\<rparr>],
        response_template = None, suggested_questions = None, suggested_entities = None\<rparr>"
        "[]"]
  by (simp add: execute_scenario_def execution_result_def dict_get_def build_entity_map_def)

text \<open>
  C10. Every result of the returned list has a boolean success flag; when it is true the
  error is \<open>None\<close>; when it is false the data is \<open>None\<close> and the error is a string; and the
  result at position \<open>i\<close> carries the label \<open>METHOD path\<close> of mapping \<open>i\<close>.
\<close>

theorem execute_scenario_result_invariant:
  "\<forall>i < length (execute_scenario call scenario entities).
     (dict_get (execute_scenario call scenario entities ! i) ''success'' = VBool True \<longrightarrow>
        dict_get (execute_scenario call scenario entities ! i) ''error'' = VNone) \<and>
     (dict_get (execute_scenario call scenario entities ! i) ''success'' \<noteq> VBool True \<longrightarrow>
        dict_get (execute_scenario call scenario entities ! i) ''success'' = VBool False \<and>
        dict_get (execute_scenario call scenario entities ! i) ''data'' = VNone \<and>
        (\<exists>s. dict_get (execute_scenario call scenario entities ! i) ''error'' = VStr s)) \<and>
     dict_get (execute_scenario call scenario entities ! i) ''endpoint'' =
       VStr (http_method_value (http_method (api_mappings scenario ! i)) @ '' '' @
             endpoint_path (api_mappings scenario ! i))"
proof (intro allI impI)
  fix i
  assume i: "i < length (execute_scenario call scenario entities)"
  define am where "am = api_mappings scenario ! i"
  define outcome where "outcome = call am (build_entity_map entities)"
  have r: "execute_scenario call scenario entities ! i = execution_result am outcome"
    using i by (simp add: execute_scenario_def Let_def am_def outcome_def)
  show "(dict_get (execute_scenario call scenario entities ! i) ''success'' = VBool True \<longrightarrow>
        dict_get (execute_scenario call scenario entities ! i) ''error'' = VNone) \<and>
     (dict_get (execute_scenario call scenario entities ! i) ''success'' \<noteq> VBool True \<longrightarrow>
        dict_get (execute_scenario call scenario entities ! i) ''success'' = VBool False \<and>
        dict_get (execute_scenario call scenario entities ! i) ''data'' = VNone \<and>
        (\<exists>s. dict_get (execute_scenario call scenario entities ! i) ''error'' = VStr s)) \<and>
     dict_get (execute_scenario call scenario entities ! i) ''endpoint'' =
       VStr (http_method_value (http_method (api_mappings scenario ! i)) @ '' '' @
             endpoint_path (api_mappings scenario ! i))"
    unfolding r am_def [symmetric]
    by (cases outcome)
       (simp_all add: execution_result_def dict_get_def endpoint_label_def)
qed

theorem execute_scenario_result_invariant_witness:
  "dict_get (execute_scenario
      (\<lambda>am em. Inl (Exn RequestError ''connection refused''))
      \<lparr>scenario_id = ''s2'', scenario_name = ''product'', scenario_description = [],
        sample_questions = [], required_entities = [],
        api_mappings =
          [\<lparr>endpoint_path = ''/products'', http_method = POST, parameter_mappings = [], static_params = []\<rparr>],
        response_template = None, suggested_questions = None, suggested_entities = None\<rparr>
      [] ! 0) ''endpoint'' = VStr ''POST /products'' \<and>
   dict_get (execute_scenario
      (\<lambda>am em. Inl (Exn RequestError ''connection refused''))
      \<lparr>scenario_id = ''s2'', scenario_name = ''product'', scenario_description = [],
        sample_questions = [], required_entities = [],
        api_mappings =
          [\<lparr>endpoint_path = ''/products'', http_method = POST, parameter_mappings = [], static_params = []\<rparr>],
        response_template = None, suggested_questions = None, suggested_entities = None\<rparr>
      [] ! 0) ''data'' = VNone"
  using execute_scenario_result_invariant
    [of "\<lambda>am em. Inl (Exn RequestError ''connection refused'')"
        "\<lparr>scenario_id = ''s2'', scenario_name = ''product'', scenario_description = [],
        sample_questions = [], required_entities = [],
        api_mappings =
          [\<lparr>endpoint_path = ''/products'', http_method = POST, parameter_mappings = [], static_params = []\<rparr>],
        response_template = None, suggested_questions = None, suggested_entities = None\<rparr>"
        "[]"]
  by (simp add: execute_scenario_def execution_result_def dict_get_def build_entity_map_def)

section \<open>Properties of render_api_response\<close>

lemma str_items_all_text: "str_items i (map VStr ss) = Inr ss"
  by (induction ss arbitrary: i) simp_all

lemma py_join_text: "py_join sep (map VStr ss) = Inr (join_text sep ss)"
  by (simp add: py_join_def str_items_all_text)

lemma failure_messages_text:
  "\<forall>r\<in>set rs. \<exists>s. dict_get_default r ''error'' (VStr ''Unknown error'') = VStr s \<Longrightarrow>
   map (\<lambda>r. dict_get_default r ''error'' (VStr ''Unknown error'')) rs =
   map VStr (map failure_message rs)"
  by (induction rs) (auto simp: failure_message_def)

lemma all_failed_filter:
  "\<forall>r\<in>set rs. \<not> py_truthy (dict_get r ''success'') \<Longrightarrow>
   filter (\<lambda>r. \<not> py_truthy (dict_get r ''success'')) rs = rs \<and>
   \<not> list_ex (\<lambda>r. py_truthy (dict_get r ''success'')) rs"
  by (induction rs) auto


text \<open>
  C4, as amended. When the result list is not empty, every result has a false
  \<open>success\<close>, and every \<open>error\<close> entry that is present is text, \<open>render_api_response\<close>
  returns the rendering of the error template with \<open>error\<close> bound to the failure
  messages joined by \<open>"; "\<close>. The right-hand side mentions neither the main template
  nor the no-data template: neither is rendered or returned.
\<close>

theorem render_api_response_all_failed:
  assumes "api_results \<noteq> []"
    and "\<forall>r\<in>set api_results. \<not> py_truthy (dict_get r ''success'')"
    and "\<forall>r\<in>set api_results. \<exists>s. dict_get_default r ''error'' (VStr ''Unknown error'') = VStr s"
  shows "render_api_response jinja template api_results error_template no_data_template =
         Inr (render jinja error_template
                [(''error'', VStr (join_text ''; '' (map failure_message api_results)))] None)"
proof -
  have "py_join ''; '' (map (\<lambda>r. dict_get_default r ''error'' (VStr ''Unknown error'')) api_results)
        = Inr (join_text ''; '' (map failure_message api_results))"
    by (simp only: failure_messages_text [OF assms(3)] py_join_text)
  then show ?thesis
    using assms(1) all_failed_filter [OF assms(2)]
    by (simp add: render_api_response_def Let_def)
qed

theorem render_api_response_all_failed_witness:
  "render_api_response
     (\<lambda>t d. Inr (t @ (case map_of d ''error'' of Some (VStr s) \<Rightarrow> s | _ \<Rightarrow> [])))
     ''main''
     [[(''endpoint'', VStr ''GET /a''), (''success'', VBool False), (''data'', VNone),
       (''error'', VStr ''Request timeout after 30.0s'')],
      [(''endpoint'', VStr ''GET /b''), (''success'', VBool False), (''data'', VNone),
       (''error'', VStr ''API returned error 500: down'')]]
     ''Error: '' ''nothing found'' =
   Inr ''Error: Request timeout after 30.0s; API returned error 500: down''"
proof -
  let ?rs = "[[(''endpoint'', VStr ''GET /a''), (''success'', VBool False), (''data'', VNone),
       (''error'', VStr ''Request timeout after 30.0s'')],
      [(''endpoint'', VStr ''GET /b''), (''success'', VBool False), (''data'', VNone),
       (''error'', VStr ''API returned error 500: down'')]]"
  have h1: "?rs \<noteq> []" by simp
  have h2: "\<forall>r\<in>set ?rs. \<not> py_truthy (dict_get r ''success'')"
    by (simp add: dict_get_def)
  have h3: "\<forall>r\<in>set ?rs. \<exists>s. dict_get_default r ''error'' (VStr ''Unknown error'') = VStr s"
    by (simp add: dict_get_default_def)
  show ?thesis
    using render_api_response_all_failed [OF h1 h2 h3]
    by (simp add: render.simps failure_message_def dict_get_default_def)
qed

text \<open>
  C4 as stated fails on the empty result list, where every result has failed (there is
  none): the guard \<open>if errors and ...\<close> is false and the no-data template is returned,
  not the rendering of the error template.
\<close>

theorem render_api_response_empty_list_counterexample:
  "render_api_response (\<lambda>t d. Inr t) ''main'' [] ''error: {{ error }}'' ''no data'' =
     Inr ''no data'' \<and>
   render (\<lambda>t d. Inr t) ''error: {{ error }}''
     [(''error'', VStr (join_text ''; '' (map failure_message [])))] None =
     ''error: {{ error }}''"
  by (simp add: render_api_response_def render.simps)

lemma map_of_dict_update_all:
  "distinct (map fst kvs) \<Longrightarrow> map_of (dict_update_all data kvs) = map_of data ++ map_of kvs"
proof (induction kvs arbitrary: data)
  case Nil
  then show ?case by (simp add: dict_update_all_def)
next
  case (Cons kv kvs)
  obtain k v where kv: "kv = (k, v)" by (cases kv)
  have "dict_update_all data (kv # kvs) = dict_update_all (AList.update k v data) kvs"
    by (simp add: dict_update_all_def kv)
  moreover have "map_of (dict_update_all (AList.update k v data) kvs)
      = map_of (AList.update k v data) ++ map_of kvs"
    using Cons by simp
  moreover have "k \<notin> dom (map_of kvs)"
    using Cons.prems by (simp add: kv dom_map_of_conv_image_fst)
  ultimately show ?case
    by (auto simp: kv update_conv' map_add_def fun_eq_iff split: option.splits)
qed

lemma collect_data_later:
  "0 < i \<Longrightarrow> collect_data i rs data = dict_update_all data (later_bindings i rs)"
proof (induction rs arbitrary: i data)
  case Nil
  then show ?case by (simp add: dict_update_all_def)
next
  case (Cons r rs)
  then show ?case
    by (simp add: contributes_def dict_update_all_def Let_def)
qed

lemma later_bindings_keys:
  "k \<in> fst ` set (later_bindings i rs) \<longleftrightarrow>
     (\<exists>j<length rs. contributes (rs ! j) \<and> k = result_key (i + j))"
proof (induction rs arbitrary: i)
  case Nil
  then show ?case by simp
next
  case (Cons r rs)
  show ?case
    using Cons [of "Suc i"] by (auto simp: Ex_less_Suc2 image_Un)
qed

lemma later_bindings_distinct: "distinct (map fst (later_bindings i rs))"
proof (induction rs arbitrary: i)
  case Nil
  then show ?case by simp
next
  case (Cons r rs)
  have "result_key i \<notin> fst ` set (later_bindings (Suc i) rs)"
    by (auto simp: later_bindings_keys dest: result_key_inj)
  with Cons [of "Suc i"] show ?case by simp
qed

lemma later_bindings_lookup:
  "j < length rs \<Longrightarrow> contributes (rs ! j) \<Longrightarrow>
   map_of (later_bindings i rs) (result_key (i + j)) = Some (dict_get (rs ! j) ''data'')"
proof (induction rs arbitrary: i j)
  case Nil
  then show ?case by simp
next
  case (Cons r rs)
  show ?case
  proof (cases j)
    case 0
    with Cons.prems show ?thesis by simp
  next
    case (Suc j')
    with Cons.prems have "map_of (later_bindings (Suc i) rs) (result_key (Suc i + j')) =
        Some (dict_get (rs ! j') ''data'')"
      using Cons.IH [of j' "Suc i"] by simp
    moreover have "result_key i \<noteq> result_key (Suc i + j')"
      using result_key_inj by fastforce
    ultimately show ?thesis using Suc by simp
  qed
qed


lemma dom_dict_update_all:
  "dom (map_of (dict_update_all data kvs)) = dom (map_of data) \<union> fst ` set kvs"
proof (induction kvs arbitrary: data)
  case Nil
  then show ?case by (simp add: dict_update_all_def)
next
  case (Cons kv kvs)
  obtain k v where kv: "kv = (k, v)" by (cases kv)
  have e: "dict_update_all data (kv # kvs) = dict_update_all (AList.update k v data) kvs"
    by (simp add: dict_update_all_def kv)
  have "dom (map_of (dict_update_all (AList.update k v data) kvs)) =
        dom (map_of (AList.update k v data)) \<union> fst ` set kvs"
    by (rule Cons)
  also have "dom (map_of (AList.update k v data)) = insert k (dom (map_of data))"
    by (simp add: update_conv')
  finally show ?case
    unfolding e by (simp add: kv)
qed


lemma result_key_not_data: "result_key i \<noteq> ''data''"
  by (simp add: result_key_def)

lemma result_key_not_helper:
  "result_key i \<noteq> ''_results''" "result_key i \<noteq> ''_success_count''"
  "result_key i \<noteq> ''_error_count''"
  by (simp_all add: result_key_def)

lemma collect_data_first:
  "collect_data 0 (r # rest) [] = dict_update_all (first_binding r) (later_bindings (Suc 0) rest)"
proof (cases "contributes r")
  case True
  then show ?thesis
    by (simp add: first_binding_def contributes_def Let_def collect_data_later)
next
  case False
  then have "collect_data 0 (r # rest) [] = collect_data (Suc 0) rest []"
    by (auto simp: contributes_def)
  then show ?thesis
    using False by (simp only: first_binding_def collect_data_later if_False zero_less_Suc)
qed

lemma map_of_collect_data:
  "map_of (collect_data 0 (r # rest) []) =
     map_of (first_binding r) ++ map_of (later_bindings (Suc 0) rest)"
  by (simp only: collect_data_first map_of_dict_update_all [OF later_bindings_distinct])

lemma dom_collect_data:
  "dom (map_of (collect_data 0 (r # rest) [])) =
     dom (map_of (first_binding r)) \<union> fst ` set (later_bindings (Suc 0) rest)"
  by (simp only: collect_data_first dom_dict_update_all)

lemma dom_first_binding:
  "dom (map_of (first_binding r)) =
     (if contributes r then
        insert (result_key 0) (insert ''data''
          (case dict_get r ''data'' of VDict body \<Rightarrow> fst ` set body | _ \<Rightarrow> {}))
      else {})"
proof (cases "contributes r")
  case False
  then show ?thesis by (simp add: first_binding_def)
next
  case True
  have "dom (map_of (case dict_get r ''data'' of VDict body \<Rightarrow> dict_update_all [] body | _ \<Rightarrow> []))
        = (case dict_get r ''data'' of VDict body \<Rightarrow> fst ` set body | _ \<Rightarrow> {})"
    by (cases "dict_get r ''data''") (simp_all add: dom_dict_update_all)
  with True show ?thesis
    by (simp add: first_binding_def update_conv')
qed

lemma later_bindings_empty_iff:
  "later_bindings i rs = [] \<longleftrightarrow> \<not> list_ex contributes rs"
  by (induction rs arbitrary: i) simp_all

lemma collect_data_empty_iff:
  "collect_data 0 rs [] = [] \<longleftrightarrow> \<not> list_ex contributes rs"
proof (cases rs)
  case Nil
  then show ?thesis by simp
next
  case (Cons r rest)
  have "collect_data 0 (r # rest) [] = [] \<longleftrightarrow> dom (map_of (collect_data 0 (r # rest) [])) = {}"
    by (cases "collect_data 0 (r # rest) []") (simp_all del: collect_data.simps)
  also have "\<dots> \<longleftrightarrow> dom (map_of (first_binding r)) = {} \<and> later_bindings (Suc 0) rest = []"
    unfolding dom_collect_data by simp
  also have "dom (map_of (first_binding r)) = {} \<longleftrightarrow> \<not> contributes r"
    unfolding dom_first_binding by simp
  finally have "collect_data 0 (r # rest) [] = [] \<longleftrightarrow>
      \<not> contributes r \<and> \<not> list_ex contributes rest"
    unfolding later_bindings_empty_iff .
  then show ?thesis
    unfolding Cons by (simp del: collect_data.simps)
qed

lemma map_of_render_context:
  "map_of (render_context (r # rest)) =
     (map_of (first_binding r) ++ map_of (later_bindings (Suc 0) rest))
       (''_results'' \<mapsto> VList (map VDict (r # rest)),
        ''_success_count'' \<mapsto>
          VInt (int (length (filter (\<lambda>r. py_truthy (dict_get r ''success'')) (r # rest)))),
        ''_error_count'' \<mapsto>
          VInt (int (length (filter (\<lambda>r. \<not> py_truthy (dict_get r ''success'')) (r # rest)))))"
  by (simp only: render_context_def add_helper_data_def update_conv' map_of_collect_data)

lemma later_bindings_no_key:
  "\<forall>j<length rest. contributes (rest ! j) \<longrightarrow> k \<noteq> result_key (i + j) \<Longrightarrow>
   map_of (later_bindings i rest) k = None"
proof -
  assume "\<forall>j<length rest. contributes (rest ! j) \<longrightarrow> k \<noteq> result_key (i + j)"
  then have "k \<notin> fst ` set (later_bindings i rest)"
    unfolding later_bindings_keys by blast
  then show ?thesis
    by (simp add: map_of_eq_None_iff)
qed

lemma later_bindings_not_first: "map_of (later_bindings (Suc 0) rest) (result_key 0) = None"
  by (rule later_bindings_no_key) (auto dest: result_key_inj)

lemma later_bindings_not_data: "map_of (later_bindings i rest) ''data'' = None"
  by (rule later_bindings_no_key) (simp add: result_key_not_data [symmetric])

lemma map_of_first_binding_result:
  "contributes r \<Longrightarrow> map_of (first_binding r) (result_key 0) = Some (dict_get r ''data'')"
  by (simp add: first_binding_def update_conv')

lemma map_of_first_binding_data:
  "map_of (first_binding r) ''data'' = (if contributes r then Some (dict_get r ''data'') else None)"
  by (simp add: first_binding_def update_conv' result_key_not_data)

lemma map_of_first_binding_body:
  "contributes r \<Longrightarrow> dict_get r ''data'' = VDict body \<Longrightarrow> distinct (map fst body) \<Longrightarrow>
   k \<noteq> ''data'' \<Longrightarrow> k \<noteq> result_key 0 \<Longrightarrow> map_of (first_binding r) k = map_of body k"
  by (simp add: first_binding_def update_conv' map_of_dict_update_all)

lemma render_context_result:
  assumes "i < length rs" "contributes (rs ! i)"
  shows "map_of (render_context rs) (result_key i) = Some (dict_get (rs ! i) ''data'')"
proof (cases rs)
  case Nil
  with assms show ?thesis by simp
next
  case (Cons r rest)
  have "(map_of (first_binding r) ++ map_of (later_bindings (Suc 0) rest)) (result_key i) =
        Some (dict_get (rs ! i) ''data'')"
  proof (cases i)
    case 0
    with assms Cons show ?thesis
      by (simp add: map_add_def later_bindings_not_first map_of_first_binding_result)
  next
    case (Suc j)
    with assms Cons have "map_of (later_bindings (Suc 0) rest) (result_key (Suc 0 + j)) =
        Some (dict_get (rest ! j) ''data'')"
      by (intro later_bindings_lookup) simp_all
    with Suc Cons show ?thesis
      by (simp add: map_add_def)
  qed
  then show ?thesis
    unfolding Cons map_of_render_context
    by (simp add: result_key_not_helper)
qed

lemma render_context_data:
  assumes "rs \<noteq> []"
  shows "map_of (render_context rs) ''data'' =
          (if contributes (rs ! 0) then Some (dict_get (rs ! 0) ''data'') else None)"
proof -
  obtain r rest where Cons: "rs = r # rest" using assms by (cases rs) auto
  show ?thesis
    unfolding Cons map_of_render_context
    by (simp add: map_add_def later_bindings_not_data map_of_first_binding_data)
qed

lemma render_context_body:
  assumes "rs \<noteq> []" "contributes (rs ! 0)" "dict_get (rs ! 0) ''data'' = VDict body"
    "distinct (map fst body)" "k \<notin> reserved_keys rs"
  shows "map_of (render_context rs) k = map_of body k"
proof -
  obtain r rest where Cons: "rs = r # rest" using assms(1) by (cases rs) auto
  from assms(5) have k: "k \<noteq> ''data''" "k \<noteq> ''_results''" "k \<noteq> ''_success_count''"
    "k \<noteq> ''_error_count''"
    and kr: "\<And>i. i < length rs \<Longrightarrow> contributes (rs ! i) \<Longrightarrow> k \<noteq> result_key i"
    by (auto simp: reserved_keys_def)
  from kr [of 0] assms(1,2) have k0: "k \<noteq> result_key 0" by simp
  have "map_of (later_bindings (Suc 0) rest) k = None"
  proof (rule later_bindings_no_key, intro allI impI)
    fix j assume "j < length rest" "contributes (rest ! j)"
    then show "k \<noteq> result_key (Suc 0 + j)"
      using kr [of "Suc j"] by (simp add: Cons)
  qed
  moreover have "map_of (first_binding r) k = map_of body k"
    using assms(2,3,4) k(1) k0 by (intro map_of_first_binding_body) (simp_all add: Cons)
  ultimately show ?thesis
    unfolding Cons map_of_render_context using k
    by (simp add: map_add_def)
qed

lemma render_context_dom:
  assumes "rs \<noteq> []"
  shows "dom (map_of (render_context rs)) =
     {''_results'', ''_success_count'', ''_error_count''} \<union>
     {result_key i | i. i < length rs \<and> contributes (rs ! i)} \<union>
     (if contributes (rs ! 0) then
        insert ''data'' (case dict_get (rs ! 0) ''data'' of VDict body \<Rightarrow> fst ` set body | _ \<Rightarrow> {})
      else {})"
proof -
  obtain r rest where Cons: "rs = r # rest" using assms by (cases rs) auto
  have keys: "{result_key i | i. i < length (r # rest) \<and> contributes ((r # rest) ! i)} =
        (if contributes r then {result_key 0} else {}) \<union>
        fst ` set (later_bindings (Suc 0) rest)"
  proof (intro set_eqI iffI)
    fix k assume "k \<in> {result_key i | i. i < length (r # rest) \<and> contributes ((r # rest) ! i)}"
    then obtain i where i: "k = result_key i" "i < length (r # rest)" "contributes ((r # rest) ! i)"
      by blast
    show "k \<in> (if contributes r then {result_key 0} else {}) \<union>
        fst ` set (later_bindings (Suc 0) rest)"
    proof (cases i)
      case 0
      with i show ?thesis by simp
    next
      case (Suc j)
      with i have "k \<in> fst ` set (later_bindings (Suc 0) rest)"
        unfolding later_bindings_keys by auto
      then show ?thesis by simp
    qed
  next
    fix k assume "k \<in> (if contributes r then {result_key 0} else {}) \<union>
        fst ` set (later_bindings (Suc 0) rest)"
    then have "contributes r \<and> k = result_key 0 \<or>
        k \<in> fst ` set (later_bindings (Suc 0) rest)"
      by (simp split: if_splits)
    then have "contributes r \<and> k = result_key 0 \<or>
        (\<exists>j<length rest. contributes (rest ! j) \<and> k = result_key (Suc 0 + j))"
      unfolding later_bindings_keys .
    then consider "contributes r" "k = result_key 0"
      | j where "j < length rest" "contributes (rest ! j)" "k = result_key (Suc 0 + j)"
      by blast
    then show "k \<in> {result_key i | i. i < length (r # rest) \<and> contributes ((r # rest) ! i)}"
    proof cases
      case 1
      then have "k = result_key 0 \<and> 0 < length (r # rest) \<and> contributes ((r # rest) ! 0)" by simp
      then show ?thesis by blast
    next
      case 2
      then have "k = result_key (Suc j) \<and> Suc j < length (r # rest) \<and> contributes ((r # rest) ! Suc j)"
        by simp
      then show ?thesis by blast
    qed
  qed
  have "dom (map_of (render_context (r # rest))) =
        {''_results'', ''_success_count'', ''_error_count''} \<union>
        (dom (map_of (first_binding r)) \<union> fst ` set (later_bindings (Suc 0) rest))"
    unfolding map_of_render_context by (auto simp: dom_map_of_conv_image_fst)
  then show ?thesis
    unfolding Cons keys dom_first_binding by auto
qed

lemma render_api_response_main:
  assumes "list_ex contributes rs"
  shows "render_api_response jinja template rs et ndt =
           Inr (render jinja template (render_context rs) (Some et))"
proof -
  from assms have "list_ex (\<lambda>r. py_truthy (dict_get r ''success'')) rs"
    by (auto simp: list_ex_iff contributes_def)
  moreover from assms have "collect_data 0 rs [] \<noteq> []"
    by (simp add: collect_data_empty_iff)
  ultimately show ?thesis
    by (simp add: render_api_response_def render_context_def Let_def)
qed

text \<open>
  C2, as amended. When at least one result succeeded with a body that is not empty,
  \<open>render_api_response\<close> renders the main template (with the error template as its
  fallback) on the context \<open>render_context api_results\<close>, in which:
  the helper keys \<open>_results\<close>, \<open>_success_count\<close> and \<open>_error_count\<close> are bound;
  every result that succeeded with a non-empty body is bound under \<open>result_<index>\<close>, at
  its position in the list;
  \<open>data\<close> is bound exactly when the result at position 0 succeeded with a non-empty body,
  and then to that body (the test of the loop is \<open>i == 0\<close>, not "first success");
  when that body is a dict (with distinct keys, as every dict has), its entries are the
  values of all keys that the function does not bind itself;
  and nothing else is bound: a failed result, or one with an empty body, gets no
  \<open>result_<index>\<close> entry.
\<close>

theorem render_api_response_context:
  assumes "list_ex contributes api_results"
  shows "render_api_response jinja template api_results error_tpl no_data_tpl =
           Inr (render jinja template (render_context api_results) (Some error_tpl)) \<and>
         map_of (render_context api_results) ''_results'' = Some (VList (map VDict api_results)) \<and>
         map_of (render_context api_results) ''_success_count'' =
           Some (VInt (int (length (filter (\<lambda>r. py_truthy (dict_get r ''success'')) api_results)))) \<and>
         map_of (render_context api_results) ''_error_count'' =
           Some (VInt (int (length (filter (\<lambda>r. \<not> py_truthy (dict_get r ''success'')) api_results)))) \<and>
         (\<forall>i<length api_results. contributes (api_results ! i) \<longrightarrow>
            map_of (render_context api_results) (result_key i) =
              Some (dict_get (api_results ! i) ''data'')) \<and>
         map_of (render_context api_results) ''data'' =
           (if contributes (api_results ! 0) then Some (dict_get (api_results ! 0) ''data'')
            else None) \<and>
         (\<forall>body k. contributes (api_results ! 0) \<longrightarrow>
            dict_get (api_results ! 0) ''data'' = VDict body \<longrightarrow> distinct (map fst body) \<longrightarrow>
            k \<notin> reserved_keys api_results \<longrightarrow>
            map_of (render_context api_results) k = map_of body k) \<and>
         dom (map_of (render_context api_results)) =
           {''_results'', ''_success_count'', ''_error_count''} \<union>
           {result_key i | i. i < length api_results \<and> contributes (api_results ! i)} \<union>
           (if contributes (api_results ! 0) then
              insert ''data''
                (case dict_get (api_results ! 0) ''data'' of
                   VDict body \<Rightarrow> fst ` set body
                 | _ \<Rightarrow> {})
            else {})"
proof -
  from assms have ne: "api_results \<noteq> []" by auto
  then obtain r rest where Cons: "api_results = r # rest" by (cases api_results) auto
  have helpers:
    "map_of (render_context api_results) ''_results'' = Some (VList (map VDict api_results))"
    "map_of (render_context api_results) ''_success_count'' =
       Some (VInt (int (length (filter (\<lambda>r. py_truthy (dict_get r ''success'')) api_results))))"
    "map_of (render_context api_results) ''_error_count'' =
       Some (VInt (int (length (filter (\<lambda>r. \<not> py_truthy (dict_get r ''success'')) api_results))))"
    unfolding Cons map_of_render_context by simp_all
  show ?thesis
    using render_api_response_main [OF assms] helpers render_context_result [of _ api_results]
      render_context_data [OF ne] render_context_body [OF ne] render_context_dom [OF ne]
    by (intro conjI allI impI) blast+
qed

theorem render_api_response_context_witness:
  "render_api_response (\<lambda>t d. Inr (t @ (case map_of d ''name'' of Some (VStr s) \<Rightarrow> s | _ \<Rightarrow> [])))
     ''Product: ''
     [[(''endpoint'', VStr ''GET /products/P1''), (''success'', VBool True),
       (''data'', VDict [(''name'', VStr ''Laptop''), (''price'', VInt 100)]), (''error'', VNone)],
      [(''endpoint'', VStr ''GET /stock/P1''), (''success'', VBool False),
       (''data'', VNone), (''error'', VStr ''API returned error 500: down'')]]
     ''Error: '' ''nothing found'' = Inr ''Product: Laptop'' \<and>
   map_of (render_context
     [[(''endpoint'', VStr ''GET /products/P1''), (''success'', VBool True),
       (''data'', VDict [(''name'', VStr ''Laptop''), (''price'', VInt 100)]), (''error'', VNone)],
      [(''endpoint'', VStr ''GET /stock/P1''), (''success'', VBool False),
       (''data'', VNone), (''error'', VStr ''API returned error 500: down'')]]) ''data'' =
     Some (VDict [(''name'', VStr ''Laptop''), (''price'', VInt 100)]) \<and>
   map_of (render_context
     [[(''endpoint'', VStr ''GET /products/P1''), (''success'', VBool True),
       (''data'', VDict [(''name'', VStr ''Laptop''), (''price'', VInt 100)]), (''error'', VNone)],
      [(''endpoint'', VStr ''GET /stock/P1''), (''success'', VBool False),
       (''data'', VNone), (''error'', VStr ''API returned error 500: down'')]]) ''_error_count'' =
     Some (VInt 1)"
proof -
  let ?rs = "[[(''endpoint'', VStr ''GET /products/P1''), (''success'', VBool True),
       (''data'', VDict [(''name'', VStr ''Laptop''), (''price'', VInt 100)]), (''error'', VNone)],
      [(''endpoint'', VStr ''GET /stock/P1''), (''success'', VBool False),
       (''data'', VNone), (''error'', VStr ''API returned error 500: down'')]]"
  have h: "list_ex contributes ?rs"
    by (simp add: contributes_def dict_get_def)
  have c: "contributes (?rs ! 0)"
    by (simp add: contributes_def dict_get_def)
  have n: "map_of (render_context ?rs) ''name'' = Some (VStr ''Laptop'')"
    by (simp add: render_context_def add_helper_data_def dict_get_def result_key_def
          show_nat.simps digit_char_def dict_update_all_def)
  from render_api_response_context [OF h] c n show ?thesis
    by (simp add: dict_get_def render.simps)
qed

text \<open>
  C2 as stated fails when the first result failed and the second succeeded: the body of
  the first successful result is neither merged nor bound under \<open>data\<close>, and the failed
  result is not bound under \<open>result_0\<close>.
\<close>

theorem render_context_first_failed_counterexample:
  "map_of (render_context
     [[(''endpoint'', VStr ''GET /stock/P1''), (''success'', VBool False),
       (''data'', VNone), (''error'', VStr ''API returned error 500: down'')],
      [(''endpoint'', VStr ''GET /products/P1''), (''success'', VBool True),
       (''data'', VDict [(''name'', VStr ''Laptop'')]), (''error'', VNone)]]) ''data'' = None \<and>
   map_of (render_context
     [[(''endpoint'', VStr ''GET /stock/P1''), (''success'', VBool False),
       (''data'', VNone), (''error'', VStr ''API returned error 500: down'')],
      [(''endpoint'', VStr ''GET /products/P1''), (''success'', VBool True),
       (''data'', VDict [(''name'', VStr ''Laptop'')]), (''error'', VNone)]]) ''name'' = None \<and>
   map_of (render_context
     [[(''endpoint'', VStr ''GET /stock/P1''), (''success'', VBool False),
       (''data'', VNone), (''error'', VStr ''API returned error 500: down'')],
      [(''endpoint'', VStr ''GET /products/P1''), (''success'', VBool True),
       (''data'', VDict [(''name'', VStr ''Laptop'')]), (''error'', VNone)]]) ''result_0'' = None \<and>
   map_of (render_context
     [[(''endpoint'', VStr ''GET /stock/P1''), (''success'', VBool False),
       (''data'', VNone), (''error'', VStr ''API returned error 500: down'')],
      [(''endpoint'', VStr ''GET /products/P1''), (''success'', VBool True),
       (''data'', VDict [(''name'', VStr ''Laptop'')]), (''error'', VNone)]]) ''result_1'' =
     Some (VDict [(''name'', VStr ''Laptop'')]) \<and>
   render_api_response (\<lambda>t d. Inr (t @ (case map_of d ''name'' of Some (VStr s) \<Rightarrow> s | _ \<Rightarrow> ''?'')))
     ''Product: ''
     [[(''endpoint'', VStr ''GET /stock/P1''), (''success'', VBool False),
       (''data'', VNone), (''error'', VStr ''API returned error 500: down'')],
      [(''endpoint'', VStr ''GET /products/P1''), (''success'', VBool True),
       (''data'', VDict [(''name'', VStr ''Laptop'')]), (''error'', VNone)]]
     ''Error: '' ''nothing found'' = Inr ''Product: ?''"
  by (simp add: render_api_response_def render_context_def add_helper_data_def dict_get_def
        result_key_def show_nat.simps digit_char_def dict_update_all_def render.simps)

section \<open>Properties of _build_query_params\<close>

lemma query_static_unresolved:
  "query_static rt None statics params =
     dict_update_all params (filter (\<lambda>(param, v). \<not> py_contains ''{'' (py_str rt v)) statics)"
proof (induction statics arbitrary: params)
  case Nil
  then show ?case by (simp add: dict_update_all_def)
next
  case (Cons kv statics)
  obtain param v where kv: "kv = (param, v)" by (cases kv)
  show ?case
    unfolding kv using Cons by (simp add: dict_update_all_def)
qed

lemma build_query_params_unresolved:
  "build_query_params rt None api_mapping entity_map =
     Inr (dict_update_all []
            (filter (\<lambda>(param, v). \<not> py_contains ''{'' (py_str rt v)) (static_params api_mapping)))"
  by (simp add: build_query_params_def query_static_unresolved)

text \<open>
  C3. The spec has an unresolved endpoint treat every parameter mapping as a query
  parameter; \<open>_build_query_params\<close> does not. With no endpoint for \<open>GET /search\<close> in the API
  spec, the mapping of the entity \<open>city\<close> (present, with the value \<open>Hanoi\<close>) to the target
  \<open>q\<close> and the static parameter \<open>limit\<close>, the query parameters are \<open>{"limit": 10}\<close> alone:
  the loop over the parameter mappings stands under \<open>if endpoint:\<close> without the \<open>else\<close>
  branch by which the loop over the static parameters of the same function falls back to
  the query. With the endpoint resolved and \<open>q\<close> and \<open>limit\<close> declared as query parameters,
  both are placed, and a mapping to a header parameter is not:
  \<open>{"q": "Hanoi", "limit": 10}\<close>.
\<close>

theorem build_query_params_unresolved_drops_mapping:
  "find_endpoint
     \<lparr>spec_title = ''Shop'', spec_version = ''1.0.0'', spec_description = [], base_url = [],
      endpoints = [], servers = [], security_schemes = [], original_spec = None\<rparr>
     ''/search'' GET = None \<and>
   dict_get [(''city'', VStr ''Hanoi'')] ''city'' = VStr ''Hanoi'' \<and>
   build_query_params example_runtime None
     \<lparr>endpoint_path = ''/search'', http_method = GET,
      parameter_mappings = [\<lparr>entity_name = ''city'', api_parameter = ''q'', transform = None\<rparr>],
      static_params = [(''limit'', VInt 10)]\<rparr>
     [(''city'', VStr ''Hanoi'')] = Inr [(''limit'', VInt 10)] \<and>
   build_query_params example_runtime
     (Some \<lparr>ep_path = ''/search'', ep_method = GET, operation_id = ''search'', ep_summary = [],
            ep_description = [], ep_tags = [],
            ep_parameters =
              [\<lparr>param_name = ''q'', param_location = QUERY, param_type = STRING,
                param_description = [], param_required = False, param_default = VNone,
                param_example = VNone, param_enum = None\<rparr>,
               \<lparr>param_name = ''limit'', param_location = QUERY, param_type = INTEGER,
                param_description = [], param_required = False, param_default = VNone,
                param_example = VNone, param_enum = None\<rparr>,
               \<lparr>param_name = ''Accept-Language'', param_location = HEADER, param_type = STRING,
                param_description = [], param_required = False, param_default = VNone,
                param_example = VNone, param_enum = None\<rparr>],
            request_body = None, ep_responses = [], suggested_description = None,
            suggested_parameters = None\<rparr>)
     \<lparr>endpoint_path = ''/search'', http_method = GET,
      parameter_mappings =
        [\<lparr>entity_name = ''city'', api_parameter = ''q'', transform = None\<rparr>,
         \<lparr>entity_name = ''lang'', api_parameter = ''Accept-Language'', transform = None\<rparr>],
      static_params = [(''limit'', VInt 10)]\<rparr>
     [(''city'', VStr ''Hanoi''), (''lang'', VStr ''vi'')] =
   Inr [(''q'', VStr ''Hanoi''), (''limit'', VInt 10)]"
  by (simp add: find_endpoint_def dict_get_def build_query_params_def transformed_def
        show_int_def show_nat.simps digit_char_def)

section \<open>Properties of _build_url\<close>

lemma py_replace_Nil: "old \<noteq> [] \<Longrightarrow> py_replace old new [] = []"
  by (simp add: py_replace.simps)

lemma py_replace_match:
  "old \<noteq> [] \<Longrightarrow> py_replace old new (old @ s) = new @ py_replace old new s"
  by (subst py_replace.simps) simp

lemma py_replace_skip:
  "old \<noteq> [] \<Longrightarrow> take (length old) (c # cs) \<noteq> old \<Longrightarrow>
   py_replace old new (c # cs) = c # py_replace old new cs"
  by (subst py_replace.simps) simp

lemma py_replace_lit:
  "x \<notin> set s \<Longrightarrow> py_replace (x # old) new (s @ t) = s @ py_replace (x # old) new t"
proof (induction s)
  case Nil
  then show ?case by simp
next
  case (Cons c s)
  then have "take (length (x # old)) (c # (s @ t)) \<noteq> x # old" by auto
  with Cons show ?case
    by (simp add: py_replace_skip)
qed

lemma py_contains_here: "py_contains sub (sub @ t)"
proof (cases "sub @ t")
  case Nil
  then show ?thesis by simp
next
  case (Cons a list)
  have "take (length sub) (sub @ t) = sub" by simp
  then have "take (length sub) (a # list) = sub" by (simp only: Cons)
  then show ?thesis by (simp only: Cons py_contains.simps) simp
qed

lemma py_contains_append: "py_contains sub t \<Longrightarrow> py_contains sub (s @ t)"
  by (induction s) auto

lemma py_contains_lit:
  "x \<notin> set s \<Longrightarrow> py_contains (x # old) (s @ t) \<longleftrightarrow> py_contains (x # old) t"
  by (induction s) auto

lemma py_replace_absent:
  "old \<noteq> [] \<Longrightarrow> \<not> py_contains old s \<Longrightarrow> py_replace old new s = s"
  by (induction s) (auto simp: py_replace_Nil py_replace_skip)

lemma hole_prefix:
  assumes "brace_free m" "brace_free n"
    and "take (length (''{'' @ m @ ''}'')) (''{'' @ n @ ''}'' @ t) = ''{'' @ m @ ''}''"
  shows "m = n"
proof -
  from assms(3) have "take (length (m @ ''}'')) (n @ ''}'' @ t) = m @ ''}''" by simp
  then obtain r where "n @ ''}'' @ t = (m @ ''}'') @ r"
    by (metis append_take_drop_id)
  then have e: "n @ CHR ''}'' # t = m @ CHR ''}'' # r" by simp
  from assms(1,2) have "CHR ''}'' \<notin> set m" "CHR ''}'' \<notin> set n"
    by (simp_all add: brace_free_def)
  with e show ?thesis
    by (induction m arbitrary: n) (auto simp: append_eq_Cons_conv Cons_eq_append_conv)
qed


lemma hole_no_match:
  "brace_free m \<Longrightarrow> brace_free n \<Longrightarrow> m \<noteq> n \<Longrightarrow>
   take (length (''{'' @ m @ ''}'')) (''{'' @ n @ ''}'' @ t) \<noteq> ''{'' @ m @ ''}''"
  using hole_prefix by blast

lemma py_replace_template:
  assumes "wf_template segs" "brace_free m"
  shows "py_replace (''{'' @ m @ ''}'') v (render_segments segs) =
         render_segments (map (subst_hole m v) segs)"
  using assms(1)
proof (induction segs)
  case Nil
  then show ?case by (simp add: render_segments_def py_replace_Nil)
next
  case (Cons seg segs)
  then have wf: "wf_segment seg" and IH: "py_replace (''{'' @ m @ ''}'') v (render_segments segs) =
         render_segments (map (subst_hole m v) segs)"
    by (simp_all add: wf_template_def)
  have rs: "\<And>x xs. render_segments (x # xs) = segment_source x @ render_segments xs"
    by (simp add: render_segments_def)
  show ?case
  proof (cases seg)
    case (Lit s)
    with wf have "CHR ''{'' \<notin> set s" by simp
    then have "py_replace (CHR ''{'' # m @ ''}'') v (s @ render_segments segs) =
               s @ py_replace (CHR ''{'' # m @ ''}'') v (render_segments segs)"
      by (rule py_replace_lit)
    with IH show ?thesis
      by (simp add: Lit rs)
  next
    case (Hole n)
    with wf have n: "brace_free n" by simp
    show ?thesis
    proof (cases "n = m")
      case True
      have "py_replace (''{'' @ m @ ''}'') v ((''{'' @ m @ ''}'') @ render_segments segs) =
            v @ py_replace (''{'' @ m @ ''}'') v (render_segments segs)"
        by (rule py_replace_match) simp
      with IH show ?thesis
        by (simp add: Hole True rs)
    next
      case False
      have nm: "take (length (''{'' @ m @ ''}'')) (''{'' @ n @ ''}'' @ render_segments segs) \<noteq> ''{'' @ m @ ''}''"
        using assms(2) n False by (intro hole_no_match) auto
      have "py_replace (''{'' @ m @ ''}'') v (CHR ''{'' # (n @ ''}'' @ render_segments segs)) =
            CHR ''{'' # py_replace (''{'' @ m @ ''}'') v (n @ ''}'' @ render_segments segs)"
        using nm by (intro py_replace_skip) simp_all
      also have "py_replace (''{'' @ m @ ''}'') v (n @ ''}'' @ render_segments segs) =
            (n @ ''}'') @ py_replace (CHR ''{'' # m @ ''}'') v (render_segments segs)"
        using py_replace_lit [of "CHR ''{''" "n @ ''}''" "m @ ''}''" v "render_segments segs"] n
        by (simp add: brace_free_def)
      finally show ?thesis
        using IH False by (simp add: Hole rs)
    qed
  qed
qed

lemma py_contains_template:
  assumes "wf_template segs" "brace_free m"
  shows "py_contains (''{'' @ m @ ''}'') (render_segments segs) \<longleftrightarrow> Hole m \<in> set segs"
  using assms(1)
proof (induction segs)
  case Nil
  then show ?case by (simp add: render_segments_def)
next
  case (Cons seg segs)
  then have wf: "wf_segment seg" and IH: "py_contains (''{'' @ m @ ''}'') (render_segments segs) \<longleftrightarrow> Hole m \<in> set segs"
    by (simp_all add: wf_template_def)
  have rs: "\<And>x xs. render_segments (x # xs) = segment_source x @ render_segments xs"
    by (simp add: render_segments_def)
  show ?case
  proof (cases seg)
    case (Lit s)
    with wf have "CHR ''{'' \<notin> set s" by simp
    then have "py_contains (CHR ''{'' # m @ ''}'') (s @ render_segments segs) \<longleftrightarrow>
               py_contains (CHR ''{'' # m @ ''}'') (render_segments segs)"
      by (rule py_contains_lit)
    with IH show ?thesis by (simp add: Lit rs)
  next
    case (Hole n)
    with wf have n: "brace_free n" by simp
    show ?thesis
    proof (cases "n = m")
      case True
      have "py_contains (''{'' @ m @ ''}'') ((''{'' @ m @ ''}'') @ render_segments segs)"
        by (rule py_contains_here)
      then show ?thesis by (simp add: Hole True rs)
    next
      case False
      have nm: "take (length (''{'' @ m @ ''}'')) (''{'' @ n @ ''}'' @ render_segments segs) \<noteq> ''{'' @ m @ ''}''"
        using assms(2) n False by (intro hole_no_match) auto
      have "py_contains (CHR ''{'' # m @ ''}'') ((n @ ''}'') @ render_segments segs) \<longleftrightarrow>
            py_contains (CHR ''{'' # m @ ''}'') (render_segments segs)"
        using n by (intro py_contains_lit) (simp add: brace_free_def)
      with nm IH False show ?thesis
        by (simp add: Hole rs)
    qed
  qed
qed

lemma wf_template_subst:
  "wf_template segs \<Longrightarrow> CHR ''{'' \<notin> set v \<Longrightarrow> wf_template (map (subst_hole m v) segs)"
proof (induction segs)
  case Nil
  then show ?case by (simp add: wf_template_def)
next
  case (Cons seg segs)
  then show ?case by (cases seg) (simp_all add: wf_template_def)
qed

lemma build_url_mappings_template:
  assumes "wf_template segs"
    and "\<forall>m\<in>set ms. brace_free (api_parameter m)"
    and "\<forall>n. Hole n \<in> set segs \<longrightarrow>
           (case find (\<lambda>m. api_parameter m = n) ms of
              Some m \<Rightarrow> (case mapping_value rt em m of
                           Inr v \<Rightarrow> CHR ''{'' \<notin> set (py_str rt v)
                         | Inl e \<Rightarrow> False)
            | None \<Rightarrow> True)"
  shows "build_url_mappings rt em ms (render_segments segs) =
           Inr (render_segments (map (fill_from_mappings rt em ms) segs))"
  using assms
proof (induction ms arbitrary: segs)
  case Nil
  have "map (fill_from_mappings rt em []) segs = segs"
  proof (rule map_idI)
    fix seg show "fill_from_mappings rt em [] seg = seg" by (cases seg) simp_all
  qed
  then show ?case by simp
next
  case (Cons m ms)
  let ?ph = "''{'' @ api_parameter m @ ''}''"
  from Cons.prems(2) have bm: "brace_free (api_parameter m)"
    and bms: "\<forall>m\<in>set ms. brace_free (api_parameter m)" by simp_all
  have test: "py_contains ?ph (render_segments segs) \<longleftrightarrow> Hole (api_parameter m) \<in> set segs"
    using Cons.prems(1) bm by (rule py_contains_template)
  show ?case
  proof (cases "Hole (api_parameter m) \<in> set segs")
    case True
    with Cons.prems(3) obtain v where v: "mapping_value rt em m = Inr v"
      and vt: "CHR ''{'' \<notin> set (py_str rt v)"
      by (fastforce split: sum.splits)
    let ?segs' = "map (subst_hole (api_parameter m) (py_str rt v)) segs"
    have wf': "wf_template ?segs'"
      using Cons.prems(1) vt by (rule wf_template_subst)
    have hyp': "\<forall>n. Hole n \<in> set ?segs' \<longrightarrow>
           (case find (\<lambda>m. api_parameter m = n) ms of
              Some m \<Rightarrow> (case mapping_value rt em m of
                           Inr v \<Rightarrow> CHR ''{'' \<notin> set (py_str rt v)
                         | Inl e \<Rightarrow> False)
            | None \<Rightarrow> True)"
    proof (intro allI impI)
      fix n assume "Hole n \<in> set ?segs'"
      then obtain seg where seg: "seg \<in> set segs" "subst_hole (api_parameter m) (py_str rt v) seg = Hole n"
        by auto
      have "seg = Hole n \<and> n \<noteq> api_parameter m"
        using seg(2) by (cases seg) (auto split: if_splits)
      with seg(1) Cons.prems(3) have "case find (\<lambda>m. api_parameter m = n) (m # ms) of
              Some m \<Rightarrow> (case mapping_value rt em m of
                           Inr v \<Rightarrow> CHR ''{'' \<notin> set (py_str rt v)
                         | Inl e \<Rightarrow> False)
            | None \<Rightarrow> True" and "n \<noteq> api_parameter m"
        by blast+
      then show "case find (\<lambda>m. api_parameter m = n) ms of
              Some m \<Rightarrow> (case mapping_value rt em m of
                           Inr v \<Rightarrow> CHR ''{'' \<notin> set (py_str rt v)
                         | Inl e \<Rightarrow> False)
            | None \<Rightarrow> True"
        by simp
    qed
    have IH: "build_url_mappings rt em ms (render_segments ?segs') =
           Inr (render_segments (map (fill_from_mappings rt em ms) ?segs'))"
      using wf' bms hyp' by (rule Cons.IH)
    have repl: "py_replace ?ph (py_str rt v) (render_segments segs) = render_segments ?segs'"
      using Cons.prems(1) bm by (rule py_replace_template)
    have same: "map (fill_from_mappings rt em ms) ?segs' = map (fill_from_mappings rt em (m # ms)) segs"
    proof (simp, intro ballI)
      fix seg assume "seg \<in> set segs"
      show "fill_from_mappings rt em ms (subst_hole (api_parameter m) (py_str rt v) seg) =
            fill_from_mappings rt em (m # ms) seg"
        by (cases seg) (auto simp: v)
    qed
    have "build_url_mappings rt em (m # ms) (render_segments segs) =
          build_url_mappings rt em ms (py_replace ?ph (py_str rt v) (render_segments segs))"
      using test True v by (simp add: Let_def mapping_value_def)
    then show ?thesis
      by (simp only: repl IH same)
  next
    case False
    have hyp': "\<forall>n. Hole n \<in> set segs \<longrightarrow>
           (case find (\<lambda>m. api_parameter m = n) ms of
              Some m \<Rightarrow> (case mapping_value rt em m of
                           Inr v \<Rightarrow> CHR ''{'' \<notin> set (py_str rt v)
                         | Inl e \<Rightarrow> False)
            | None \<Rightarrow> True)"
    proof (intro allI impI)
      fix n assume n: "Hole n \<in> set segs"
      with False have "n \<noteq> api_parameter m" by auto
      with n Cons.prems(3) show "case find (\<lambda>m. api_parameter m = n) ms of
              Some m \<Rightarrow> (case mapping_value rt em m of
                           Inr v \<Rightarrow> CHR ''{'' \<notin> set (py_str rt v)
                         | Inl e \<Rightarrow> False)
            | None \<Rightarrow> True"
        by fastforce
    qed
    have IH: "build_url_mappings rt em ms (render_segments segs) =
           Inr (render_segments (map (fill_from_mappings rt em ms) segs))"
      using Cons.prems(1) bms hyp' by (rule Cons.IH)
    have same: "map (fill_from_mappings rt em ms) segs = map (fill_from_mappings rt em (m # ms)) segs"
    proof (simp, intro ballI)
      fix seg assume "seg \<in> set segs"
      with False show "fill_from_mappings rt em ms seg = fill_from_mappings rt em (m # ms) seg"
        by (cases seg) auto
    qed
    have "build_url_mappings rt em (m # ms) (render_segments segs) =
          build_url_mappings rt em ms (render_segments segs)"
      using test False by (simp add: Let_def)
    then show ?thesis
      by (simp only: IH same)
  qed
qed


lemma build_url_static_template:
  assumes "wf_template segs"
    and "\<forall>p\<in>fst ` set statics. brace_free p"
    and "\<forall>n. Hole n \<in> set segs \<longrightarrow>
           (case map_of statics n of
              Some v \<Rightarrow> CHR ''{'' \<notin> set (py_str rt v)
            | None \<Rightarrow> True)"
  shows "build_url_static rt statics (render_segments segs) =
           render_segments (map (fill_from_static rt statics) segs)"
  using assms
proof (induction statics arbitrary: segs)
  case Nil
  have "map (fill_from_static rt []) segs = segs"
  proof (rule map_idI)
    fix seg show "fill_from_static rt [] seg = seg" by (cases seg) simp_all
  qed
  then show ?case by simp
next
  case (Cons kv statics)
  obtain p v where kv: "kv = (p, v)" by (cases kv)
  let ?ph = "''{'' @ p @ ''}''"
  from Cons.prems(2) have bp: "brace_free p"
    and bs: "\<forall>p\<in>fst ` set statics. brace_free p" by (simp_all add: kv)
  have test: "py_contains ?ph (render_segments segs) \<longleftrightarrow> Hole p \<in> set segs"
    using Cons.prems(1) bp by (rule py_contains_template)
  show ?case
  proof (cases "Hole p \<in> set segs")
    case True
    with Cons.prems(3) have vt: "CHR ''{'' \<notin> set (py_str rt v)"
      by (fastforce simp: kv)
    let ?segs' = "map (subst_hole p (py_str rt v)) segs"
    have wf': "wf_template ?segs'"
      using Cons.prems(1) vt by (rule wf_template_subst)
    have hyp': "\<forall>n. Hole n \<in> set ?segs' \<longrightarrow>
           (case map_of statics n of
              Some v \<Rightarrow> CHR ''{'' \<notin> set (py_str rt v)
            | None \<Rightarrow> True)"
    proof (intro allI impI)
      fix n assume "Hole n \<in> set ?segs'"
      then obtain seg where seg: "seg \<in> set segs" "subst_hole p (py_str rt v) seg = Hole n"
        by auto
      have "seg = Hole n \<and> n \<noteq> p"
        using seg(2) by (cases seg) (auto split: if_splits)
      with seg(1) Cons.prems(3) have "case map_of (kv # statics) n of
              Some v \<Rightarrow> CHR ''{'' \<notin> set (py_str rt v)
            | None \<Rightarrow> True" and "n \<noteq> p"
        by blast+
      then show "case map_of statics n of
              Some v \<Rightarrow> CHR ''{'' \<notin> set (py_str rt v)
            | None \<Rightarrow> True"
        by (simp add: kv)
    qed
    have IH: "build_url_static rt statics (render_segments ?segs') =
           render_segments (map (fill_from_static rt statics) ?segs')"
      using wf' bs hyp' by (rule Cons.IH)
    have repl: "py_replace ?ph (py_str rt v) (render_segments segs) = render_segments ?segs'"
      using Cons.prems(1) bp by (rule py_replace_template)
    have same: "map (fill_from_static rt statics) ?segs' = map (fill_from_static rt (kv # statics)) segs"
    proof (simp, intro ballI)
      fix seg assume "seg \<in> set segs"
      show "fill_from_static rt statics (subst_hole p (py_str rt v) seg) =
            fill_from_static rt (kv # statics) seg"
        by (cases seg) (auto simp: kv)
    qed
    have "build_url_static rt (kv # statics) (render_segments segs) =
          build_url_static rt statics (py_replace ?ph (py_str rt v) (render_segments segs))"
      using test True by (simp add: Let_def kv)
    then show ?thesis
      by (simp only: repl IH same)
  next
    case False
    have hyp': "\<forall>n. Hole n \<in> set segs \<longrightarrow>
           (case map_of statics n of
              Some v \<Rightarrow> CHR ''{'' \<notin> set (py_str rt v)
            | None \<Rightarrow> True)"
    proof (intro allI impI)
      fix n assume n: "Hole n \<in> set segs"
      with False have "n \<noteq> p" by auto
      with n Cons.prems(3) show "case map_of statics n of
              Some v \<Rightarrow> CHR ''{'' \<notin> set (py_str rt v)
            | None \<Rightarrow> True"
        by (fastforce simp: kv)
    qed
    have IH: "build_url_static rt statics (render_segments segs) =
           render_segments (map (fill_from_static rt statics) segs)"
      using Cons.prems(1) bs hyp' by (rule Cons.IH)
    have same: "map (fill_from_static rt statics) segs = map (fill_from_static rt (kv # statics)) segs"
    proof (simp, intro ballI)
      fix seg assume "seg \<in> set segs"
      with False show "fill_from_static rt statics seg = fill_from_static rt (kv # statics) seg"
        by (cases seg) (auto simp: kv)
    qed
    have "build_url_static rt (kv # statics) (render_segments segs) =
          build_url_static rt statics (render_segments segs)"
      using test False by (simp add: Let_def kv)
    then show ?thesis
      by (simp only: IH same)
  qed
qed

lemma build_url_path_template:
  assumes wf: "wf_template segs"
    and bm: "\<forall>m\<in>set (parameter_mappings am). brace_free (api_parameter m)"
    and bs: "\<forall>p\<in>fst ` set (static_params am). brace_free p"
    and ok: "\<forall>n. Hole n \<in> set segs \<longrightarrow> hole_ok rt am em n"
  shows "build_url_path rt (render_segments segs) am em = Inr (fill_template rt am em segs)"
proof -
  let ?ms = "parameter_mappings am"
  let ?st = "static_params am"
  let ?segs1 = "map (fill_from_mappings rt em ?ms) segs"
  have h1: "\<forall>n. Hole n \<in> set segs \<longrightarrow>
           (case find (\<lambda>m. api_parameter m = n) ?ms of
              Some m \<Rightarrow> (case mapping_value rt em m of
                           Inr v \<Rightarrow> CHR ''{'' \<notin> set (py_str rt v)
                         | Inl e \<Rightarrow> False)
            | None \<Rightarrow> True)"
    using ok by (auto simp: hole_ok_def split: option.splits)
  have p1: "build_url_mappings rt em ?ms (render_segments segs) = Inr (render_segments ?segs1)"
    using wf bm h1 by (rule build_url_mappings_template)
  have seg1: "\<And>seg. seg \<in> set segs \<Longrightarrow>
      wf_segment (fill_from_mappings rt em ?ms seg) \<and>
      (\<forall>n. fill_from_mappings rt em ?ms seg = Hole n \<longrightarrow>
         (case map_of ?st n of Some v \<Rightarrow> CHR ''{'' \<notin> set (py_str rt v) | None \<Rightarrow> True)) \<and>
      segment_source (fill_from_static rt ?st (fill_from_mappings rt em ?ms seg)) =
        filled_segment rt am em seg"
  proof -
    fix seg assume s: "seg \<in> set segs"
    show "wf_segment (fill_from_mappings rt em ?ms seg) \<and>
      (\<forall>n. fill_from_mappings rt em ?ms seg = Hole n \<longrightarrow>
         (case map_of ?st n of Some v \<Rightarrow> CHR ''{'' \<notin> set (py_str rt v) | None \<Rightarrow> True)) \<and>
      segment_source (fill_from_static rt ?st (fill_from_mappings rt em ?ms seg)) =
        filled_segment rt am em seg"
    proof (cases seg)
      case (Lit t)
      with s wf show ?thesis
        by (auto simp: wf_template_def list_all_iff)
    next
      case (Hole n)
      with s wf have bn: "brace_free n" by (auto simp: wf_template_def list_all_iff)
      from Hole s ok have "hole_ok rt am em n" by blast
      with bn show ?thesis
        by (auto simp: Hole hole_ok_def hole_text_def split: option.splits sum.splits)
    qed
  qed
  have wf1: "wf_template ?segs1"
    using seg1 by (simp add: wf_template_def list_all_iff)
  have h2: "\<forall>n. Hole n \<in> set ?segs1 \<longrightarrow>
           (case map_of ?st n of
              Some v \<Rightarrow> CHR ''{'' \<notin> set (py_str rt v)
            | None \<Rightarrow> True)"
    using seg1 by auto
  have p2: "build_url_static rt ?st (render_segments ?segs1) =
        render_segments (map (fill_from_static rt ?st) ?segs1)"
    using wf1 bs h2 by (rule build_url_static_template)
  have "render_segments (map (fill_from_static rt ?st) ?segs1) = fill_template rt am em segs"
    using seg1 by (simp add: render_segments_def fill_template_def cong: map_cong)
  with p1 p2 show ?thesis
    by (simp add: build_url_path_def)
qed

lemma build_url_path_example:
  "build_url_path rt ''/products/{id}''
     \<lparr>endpoint_path = ''/products/{id}'', http_method = hm,
      parameter_mappings = [\<lparr>entity_name = ''productId'', api_parameter = ''id'', transform = None\<rparr>],
      static_params = []\<rparr>
     [(''productId'', VStr ''P1'')] = Inr ''/products/P1''"
  by (simp add: build_url_path_def Let_def transformed_def dict_get_default_def py_replace.simps)

text \<open>
  C5, as amended. With the entity map \<open>{"productId": "P1"}\<close> and the mapping of
  \<open>productId\<close> to \<open>id\<close>, the path \<open>/products/{id}\<close> becomes \<open>/products/P1\<close>. In general, for a path that is a
  template (literal text without \<open>{\<close>, holes with brace-free names), targets and static
  names without braces, and values whose transform does not raise and whose text has no
  \<open>{\<close>: the path built is the template with every hole filled by \<open>hole_text\<close>, that is
  from the first parameter mapping that targets it, else from the static parameter of its
  name, else left as \<open>{name}\<close>; the outcome is a value, not an exception; and the URL is
  the join of the base URL with that path.
\<close>

theorem build_url_placeholders:
  "build_url_path rt ''/products/{id}''
     \<lparr>endpoint_path = ''/products/{id}'', http_method = hm,
      parameter_mappings = [\<lparr>entity_name = ''productId'', api_parameter = ''id'', transform = None\<rparr>],
      static_params = []\<rparr>
     [(''productId'', VStr ''P1'')] = Inr ''/products/P1'' \<and>
   (wf_template segs \<longrightarrow>
    (\<forall>m\<in>set (parameter_mappings am). brace_free (api_parameter m)) \<longrightarrow>
    (\<forall>p\<in>fst ` set (static_params am). brace_free p) \<longrightarrow>
    (\<forall>n. Hole n \<in> set segs \<longrightarrow> hole_ok rt am em n) \<longrightarrow>
    build_url_path rt (render_segments segs) am em = Inr (fill_template rt am em segs) \<and>
    build_url rt executor_base_url (render_segments segs) am em =
      Inr (urljoin rt (executor_base_url @ ''/'')
             (dropWhile (\<lambda>c. c = CHR ''/'') (fill_template rt am em segs))))"
  using build_url_path_example build_url_path_template [of segs am rt em]
  by (simp add: build_url_def)

theorem build_url_placeholders_witness:
  "build_url example_runtime ''http://shop.test/api''
     (render_segments [Lit ''/shops/'', Hole ''shop'', Lit ''/products/'', Hole ''id'', Lit ''/'', Hole ''rev''])
     \<lparr>endpoint_path = ''/shops/{shop}/products/{id}/{rev}'', http_method = GET,
      parameter_mappings =
        [\<lparr>entity_name = ''productId'', api_parameter = ''id'', transform = Some ''uppercase''\<rparr>,
         \<lparr>entity_name = ''other'', api_parameter = ''id'', transform = None\<rparr>],
      static_params = [(''shop'', VInt 7), (''id'', VStr ''static'')]\<rparr>
     [(''productId'', VStr ''p1'')] =
   Inr ''http://shop.test/api/shops/7/products/P1/{rev}'' \<and>
   render_segments [Lit ''/shops/'', Hole ''shop'', Lit ''/products/'', Hole ''id'', Lit ''/'', Hole ''rev''] =
     ''/shops/{shop}/products/{id}/{rev}''"
proof -
  let ?segs = "[Lit ''/shops/'', Hole ''shop'', Lit ''/products/'', Hole ''id'', Lit ''/'', Hole ''rev'']"
  let ?am = "\<lparr>endpoint_path = ''/shops/{shop}/products/{id}/{rev}'', http_method = GET,
      parameter_mappings =
        [\<lparr>entity_name = ''productId'', api_parameter = ''id'', transform = Some ''uppercase''\<rparr>,
         \<lparr>entity_name = ''other'', api_parameter = ''id'', transform = None\<rparr>],
      static_params = [(''shop'', VInt 7), (''id'', VStr ''static'')]\<rparr>"
  let ?em = "[(''productId'', VStr ''p1'')]"
  have up: "str_upper example_runtime ''p1'' = ''P1''"
    by (simp add: str_upper_def is_ascii_def py_upper_def)
  have s7: "show_int 7 = ''7''" by (simp add: show_int_def show_nat.simps digit_char_def)
  have h1: "wf_template ?segs" by (simp add: wf_template_def brace_free_def)
  have h2: "\<forall>m\<in>set (parameter_mappings ?am). brace_free (api_parameter m)"
    by (simp add: brace_free_def)
  have h3: "\<forall>p\<in>fst ` set (static_params ?am). brace_free p"
    by (simp add: brace_free_def)
  have h4: "\<forall>n. Hole n \<in> set ?segs \<longrightarrow> hole_ok example_runtime ?am ?em n"
    by (auto simp: hole_ok_def mapping_value_def transformed_def apply_transform_def
          dict_get_default_def up s7)
  have "fill_template example_runtime ?am ?em ?segs = ''/shops/7/products/P1/{rev}''"
    by (simp add: fill_template_def hole_text_def mapping_value_def transformed_def
          apply_transform_def dict_get_default_def up s7)
  with build_url_placeholders [of example_runtime GET ?segs ?am ?em "''http://shop.test/api''"]
    h1 h2 h3 h4
  show ?thesis
    by (simp add: example_runtime_def render_segments_def)
qed

text \<open>
  C5 as stated fails in general. A declared transform may raise, and the exception leaves
  \<open>_build_url\<close>: with the transform \<open>int\<close> and the entity value \<open>abc\<close> no path is built. And
  a placeholder is not filled once and for all: the loop replaces in the text built so
  far, so an entity value \<open>{y}\<close> put in the place of \<open>{x}\<close> is itself replaced by the next
  mapping, and \<open>/a/{x}/{y}\<close> becomes \<open>/a/B/B\<close>, not \<open>/a/{y}/B\<close>. And a target name that
  holds braces, \<open>x}{y\<close>, is the name of no placeholder of \<open>/a/{x}{y}\<close>, yet its mapping
  replaces both.
\<close>

theorem build_url_placeholders_counterexample:
  "build_url_path example_runtime ''/products/{id}''
     \<lparr>endpoint_path = ''/products/{id}'', http_method = GET,
      parameter_mappings =
        [\<lparr>entity_name = ''productId'', api_parameter = ''id'', transform = Some ''int''\<rparr>],
      static_params = []\<rparr>
     [(''productId'', VStr ''abc'')] =
   Inl (Exn ValueError (''invalid literal for int() with base 10: '' @ [CHR 0x27] @ ''abc'' @ [CHR 0x27])) \<and>
   build_url_path example_runtime ''/a/{x}/{y}''
     \<lparr>endpoint_path = ''/a/{x}/{y}'', http_method = GET,
      parameter_mappings =
        [\<lparr>entity_name = ''first'', api_parameter = ''x'', transform = None\<rparr>,
         \<lparr>entity_name = ''second'', api_parameter = ''y'', transform = None\<rparr>],
      static_params = []\<rparr>
     [(''first'', VStr ''{y}''), (''second'', VStr ''B'')] = Inr ''/a/B/B'' \<and>
   fill_template example_runtime
     \<lparr>endpoint_path = ''/a/{x}/{y}'', http_method = GET,
      parameter_mappings =
        [\<lparr>entity_name = ''first'', api_parameter = ''x'', transform = None\<rparr>,
         \<lparr>entity_name = ''second'', api_parameter = ''y'', transform = None\<rparr>],
      static_params = []\<rparr>
     [(''first'', VStr ''{y}''), (''second'', VStr ''B'')]
     [Lit ''/a/'', Hole ''x'', Lit ''/'', Hole ''y''] = ''/a/{y}/B'' \<and>
   render_segments [Lit ''/a/'', Hole ''x'', Lit ''/'', Hole ''y''] = ''/a/{x}/{y}'' \<and>
   build_url_path example_runtime ''/a/{x}{y}''
     \<lparr>endpoint_path = ''/a/{x}{y}'', http_method = GET,
      parameter_mappings =
        [\<lparr>entity_name = ''first'', api_parameter = ''x}{y'', transform = None\<rparr>],
      static_params = []\<rparr>
     [(''first'', VStr ''B'')] = Inr ''/a/B''"
proof (intro conjI)
  show "build_url_path example_runtime ''/products/{id}''
     \<lparr>endpoint_path = ''/products/{id}'', http_method = GET,
      parameter_mappings =
        [\<lparr>entity_name = ''productId'', api_parameter = ''id'', transform = Some ''int''\<rparr>],
      static_params = []\<rparr>
     [(''productId'', VStr ''abc'')] =
   Inl (Exn ValueError (''invalid literal for int() with base 10: '' @ [CHR 0x27] @ ''abc'' @ [CHR 0x27]))"
    by (simp add: build_url_path_def Let_def transformed_def apply_transform_def
          dict_get_default_def example_runtime_def)
next
  show "build_url_path example_runtime ''/a/{x}/{y}''
     \<lparr>endpoint_path = ''/a/{x}/{y}'', http_method = GET,
      parameter_mappings =
        [\<lparr>entity_name = ''first'', api_parameter = ''x'', transform = None\<rparr>,
         \<lparr>entity_name = ''second'', api_parameter = ''y'', transform = None\<rparr>],
      static_params = []\<rparr>
     [(''first'', VStr ''{y}''), (''second'', VStr ''B'')] = Inr ''/a/B/B''"
    by (simp add: build_url_path_def Let_def transformed_def dict_get_default_def
          py_replace.simps)
next
  show "fill_template example_runtime
     \<lparr>endpoint_path = ''/a/{x}/{y}'', http_method = GET,
      parameter_mappings =
        [\<lparr>entity_name = ''first'', api_parameter = ''x'', transform = None\<rparr>,
         \<lparr>entity_name = ''second'', api_parameter = ''y'', transform = None\<rparr>],
      static_params = []\<rparr>
     [(''first'', VStr ''{y}''), (''second'', VStr ''B'')]
     [Lit ''/a/'', Hole ''x'', Lit ''/'', Hole ''y''] = ''/a/{y}/B''"
    by (simp add: fill_template_def hole_text_def mapping_value_def transformed_def
          dict_get_default_def)
next
  show "render_segments [Lit ''/a/'', Hole ''x'', Lit ''/'', Hole ''y''] = ''/a/{x}/{y}''"
    by (simp add: render_segments_def)
next
  show "build_url_path example_runtime ''/a/{x}{y}''
     \<lparr>endpoint_path = ''/a/{x}{y}'', http_method = GET,
      parameter_mappings =
        [\<lparr>entity_name = ''first'', api_parameter = ''x}{y'', transform = None\<rparr>],
      static_params = []\<rparr>
     [(''first'', VStr ''B'')] = Inr ''/a/B''"
    by (simp add: build_url_path_def Let_def transformed_def dict_get_default_def
          py_replace.simps)
qed





section \<open>Properties of answer\<close>




lemma float_less_or_ge:
  "c \<noteq> NaN \<Longrightarrow> float_less c y \<noteq> float_ge c y"
  by (cases c) auto




text \<open>
  A confidence that is NaN, which \<open>json.loads\<close> accepts and a \<open>float\<close> field admits, is
  not at least the threshold, and \<open>NaN < 0.3\<close> is false as well: \<open>answer\<close> goes on to the
  API calls.
\<close>

lemma answer_nan_confidence:
  "answer (example_ai NaN
            [\<lparr>ent_name = ''productId'', ent_value = VStr ''P1'', ent_confidence = Finite 1\<rparr>])
     (\<lambda>t d. Inr t) (\<lambda>am em. Inr (VDict [(''name'', VStr ''Laptop'')])) [] ''how much is it?'' =
   Inr \<lparr>answer_text = ''generated'', scenario_used = Some ''product'',
        api_calls_made =
          [[(''endpoint'', VStr ''GET /products/{id}''), (''success'', VBool True)]],
        raw_api_responses =
          [[(''endpoint'', VStr ''GET /products/{id}''), (''success'', VBool True),
            (''data'', VDict [(''name'', VStr ''Laptop'')]), (''error'', VNone)]]\<rparr> \<and>
   \<not> float_ge NaN confidence_threshold"
  by (simp add: answer_def example_ai_def example_scenario_def check_missing_entities_def
        execute_scenario_def execution_result_def endpoint_label_def compose_answer_def
        dict_get_def Let_def)

section \<open>Properties of _parse_operation\<close>

lemma update_entries:
  "\<forall>kv\<in>set al. P kv \<Longrightarrow> P (k, v) \<Longrightarrow> \<forall>kv\<in>set (AList.update k v al). P kv"
  by (induction al) auto

lemma fold_update_entries:
  "\<forall>kv\<in>set al. fst kv = f (snd kv) \<Longrightarrow>
   \<forall>kv\<in>set (fold (\<lambda>p al. AList.update (f p) p al) xs al). fst kv = f (snd kv)"
proof (induction xs arbitrary: al)
  case Nil
  then show ?case by simp
next
  case (Cons x xs)
  have "\<forall>kv\<in>set (AList.update (f x) x al). fst kv = f (snd kv)"
    using Cons.prems by (intro update_entries) simp_all
  then show ?case using Cons.IH by simp
qed

lemma fold_update_distinct:
  "distinct (map fst al) \<Longrightarrow>
   distinct (map fst (fold (\<lambda>p al. AList.update (f p) p al) xs al))"
  by (induction xs arbitrary: al) (simp_all add: distinct_update)

lemma fold_update_map_of:
  "map_of (fold (\<lambda>p al. AList.update (f p) p al) xs al) =
     map_of al ++ map_of (rev (map (\<lambda>p. (f p, p)) xs))"
proof (induction xs arbitrary: al)
  case Nil
  then show ?case by simp
next
  case (Cons x xs)
  have "map_of (fold (\<lambda>p al. AList.update (f p) p al) (x # xs) al) =
        map_of (AList.update (f x) x al) ++ map_of (rev (map (\<lambda>p. (f p, p)) xs))"
    using Cons by simp
  also have "\<dots> = (map_of al ++ [f x \<mapsto> x]) ++ map_of (rev (map (\<lambda>p. (f p, p)) xs))"
    by (simp add: update_conv')
  also have "\<dots> = map_of al ++ map_of (rev (map (\<lambda>p. (f p, p)) (x # xs)))"
    by (simp add: map_of_append)
  finally show ?case .
qed

lemma find_values:
  "\<forall>kv\<in>set al. fst kv = f (snd kv) \<Longrightarrow> find (\<lambda>p. f p = n) (map snd al) = map_of al n"
  by (induction al) auto

lemma map_of_tagged: "map_of (map (\<lambda>p. (f p, p)) xs) n = find (\<lambda>p. f p = n) xs"
  by (induction xs) auto

lemma merge_parameters_lookup:
  "find (\<lambda>p. param_name p = n) (merge_parameters path_params op_params) =
     (case find (\<lambda>p. param_name p = n) (rev op_params) of
        Some q \<Rightarrow> Some q
      | None \<Rightarrow> find (\<lambda>p. param_name p = n) (rev path_params))"
proof -
  let ?f = "\<lambda>p all_params. AList.update (param_name p) p all_params"
  let ?base = "fold ?f path_params []"
  let ?al = "fold ?f op_params ?base"
  have e0: "\<forall>kv\<in>set ?base. fst kv = param_name (snd kv)"
    using fold_update_entries [where f = param_name and al = "[]" and xs = path_params] by simp
  have e: "\<forall>kv\<in>set ?al. fst kv = param_name (snd kv)"
    using fold_update_entries [where f = param_name and al = "fold ?f path_params []"
        and xs = op_params] e0
    by blast
  have "find (\<lambda>p. param_name p = n) (map snd ?al) = map_of ?al n"
    using e by (rule find_values)
  also have "map_of ?al = (map_of [] ++ map_of (rev (map (\<lambda>p. (param_name p, p)) path_params)))
        ++ map_of (rev (map (\<lambda>p. (param_name p, p)) op_params))"
    by (simp only: fold_update_map_of)
  finally show ?thesis
    by (simp add: merge_parameters_def map_add_def rev_map map_of_tagged split: option.splits)
qed

lemma merge_parameters_distinct:
  "distinct (map param_name (merge_parameters path_params op_params))"
proof -
  let ?f = "\<lambda>p all_params. AList.update (param_name p) p all_params"
  let ?al = "fold ?f op_params (fold ?f path_params [])"
  have e0: "\<forall>kv\<in>set (fold ?f path_params []). fst kv = param_name (snd kv)"
    using fold_update_entries [where f = param_name and al = "[]" and xs = path_params] by simp
  have e: "\<forall>kv\<in>set ?al. fst kv = param_name (snd kv)"
    using fold_update_entries [where f = param_name and al = "fold ?f path_params []"
        and xs = op_params] e0
    by blast
  have names: "\<And>al :: (string \<times> APIParameter) list.
      \<forall>kv\<in>set al. fst kv = param_name (snd kv) \<Longrightarrow> map param_name (map snd al) = map fst al"
    by simp
  have d0: "distinct (map fst (fold ?f path_params []))"
    using fold_update_distinct [where f = param_name and al = "[]" and xs = path_params] by simp
  have d: "distinct (map fst ?al)"
    using fold_update_distinct [where f = param_name and al = "fold ?f path_params []"
        and xs = op_params] d0
    by blast
  show ?thesis
    unfolding merge_parameters_def names [OF e] by (rule d)
qed

lemma distinct_find:
  "distinct (map f xs) \<Longrightarrow> x \<in> set xs \<Longrightarrow> find (\<lambda>y. f y = f x) xs = Some x"
  by (induction xs) (auto simp: image_iff)

lemma find_in_set: "find P xs = Some x \<Longrightarrow> x \<in> set xs \<and> P x"
  by (induction xs) (auto split: if_splits)

lemma find_none: "find P xs = None \<longleftrightarrow> (\<forall>x\<in>set xs. \<not> P x)"
  by (induction xs) auto

lemma find_name_iff:
  "find (\<lambda>p. param_name p = n) xs \<noteq> None \<longleftrightarrow> n \<in> param_name ` set xs"
  by (auto simp: find_none)

lemma merge_parameters_names:
  "param_name ` set (merge_parameters path_params op_params) =
     param_name ` set path_params \<union> param_name ` set op_params"
proof (intro set_eqI)
  fix n
  have "n \<in> param_name ` set (merge_parameters path_params op_params) \<longleftrightarrow>
        find (\<lambda>p. param_name p = n) (merge_parameters path_params op_params) \<noteq> None"
    by (simp only: find_name_iff)
  also have "\<dots> \<longleftrightarrow> find (\<lambda>p. param_name p = n) (rev op_params) \<noteq> None \<or>
       find (\<lambda>p. param_name p = n) (rev path_params) \<noteq> None"
    by (simp only: merge_parameters_lookup split: option.splits) auto
  also have "\<dots> \<longleftrightarrow> n \<in> param_name ` set path_params \<union> param_name ` set op_params"
    by (simp only: find_name_iff) auto
  finally show "n \<in> param_name ` set (merge_parameters path_params op_params) \<longleftrightarrow>
     n \<in> param_name ` set path_params \<union> param_name ` set op_params" .
qed

lemma merge_parameters_operation_wins:
  assumes "p \<in> set (merge_parameters path_params op_params)"
    and "param_name p \<in> param_name ` set op_params"
  shows "p \<in> set op_params"
proof -
  have "find (\<lambda>y. param_name y = param_name p) (merge_parameters path_params op_params) = Some p"
    using merge_parameters_distinct assms(1) by (rule distinct_find)
  moreover from assms(2) obtain q where
    "find (\<lambda>y. param_name y = param_name p) (rev op_params) = Some q"
    using find_name_iff [of "param_name p" "rev op_params"] by auto
  ultimately have "find (\<lambda>y. param_name y = param_name p) (rev op_params) = Some p"
    by (simp add: merge_parameters_lookup)
  then show ?thesis
    using find_in_set by fastforce
qed

lemma merge_parameters_path_retained:
  assumes "p \<in> set path_params" and "param_name p \<notin> param_name ` set op_params"
  shows "\<exists>p'\<in>set (merge_parameters path_params op_params).
           param_name p' = param_name p \<and> p' \<in> set path_params"
proof -
  from assms(2) have "find (\<lambda>y. param_name y = param_name p) (rev op_params) = None"
    using find_name_iff [of "param_name p" "rev op_params"] by auto
  moreover from assms(1) obtain p' where
    p': "find (\<lambda>y. param_name y = param_name p) (rev path_params) = Some p'"
    using find_name_iff [of "param_name p" "rev path_params"] by auto
  ultimately have "find (\<lambda>y. param_name y = param_name p)
      (merge_parameters path_params op_params) = Some p'"
    by (simp add: merge_parameters_lookup)
  then have "p' \<in> set (merge_parameters path_params op_params) \<and> param_name p' = param_name p"
    using find_in_set by fastforce
  moreover from p' have "p' \<in> set path_params"
    using find_in_set by fastforce
  ultimately show ?thesis by blast
qed

lemma merge_parameters_path_kept:
  assumes "distinct (map param_name path_params)"
    and "p \<in> set path_params" and "param_name p \<notin> param_name ` set op_params"
  shows "p \<in> set (merge_parameters path_params op_params)"
proof -
  from assms(3) have "find (\<lambda>y. param_name y = param_name p) (rev op_params) = None"
    using find_name_iff [of "param_name p" "rev op_params"] by auto
  moreover have "find (\<lambda>y. param_name y = param_name p) (rev path_params) = Some p"
    using assms(1,2) by (intro distinct_find) (simp_all add: rev_map [symmetric])
  ultimately have "find (\<lambda>y. param_name y = param_name p)
      (merge_parameters path_params op_params) = Some p"
    by (simp add: merge_parameters_lookup)
  then show ?thesis
    using find_in_set by fastforce
qed

lemma parse_operation_parameters:
  assumes "parse_operation rt pyd path m operation path_params components = Inr endpoint"
  shows "\<exists>od op_params.
           operation = VDict od \<and>
           parse_parameters pyd (dict_get_default od ''parameters'' (VList [])) components =
             Inr op_params \<and>
           ep_parameters endpoint = merge_parameters path_params op_params"
proof -
  from assms obtain od where od: "operation = VDict od"
    by (cases operation) (simp_all add: parse_operation_def and_then_def as_dict_def)
  from assms od obtain op_params where
    op: "parse_parameters pyd (dict_get_default od ''parameters'' (VList [])) components = Inr op_params"
    by (cases "parse_parameters pyd (dict_get_default od ''parameters'' (VList [])) components")
       (simp_all add: parse_operation_def and_then_def as_dict_def)
  from assms od op have "ep_parameters endpoint = merge_parameters path_params op_params"
    by (auto simp: parse_operation_def and_then_def as_dict_def split: sum.splits)
  with od op show ?thesis by blast
qed


lemma parse_operation_example:
  "parse_operation example_runtime strict_pydantic ''/users/{id}'' GET
     (VDict [(''parameters'', VList
        [VDict [(''name'', VStr ''id''), (''in'', VStr ''path''), (''required'', VBool False),
                (''schema'', VDict [(''type'', VStr ''integer'')])]])])
     [\<lparr>param_name = ''id'', param_location = PATH, param_type = STRING,
       param_description = [], param_required = True, param_default = VNone,
       param_example = VNone, param_enum = None\<rparr>,
      \<lparr>param_name = ''lang'', param_location = HEADER, param_type = STRING,
       param_description = [], param_required = False, param_default = VNone,
       param_example = VNone, param_enum = None\<rparr>]
     (VDict []) =
   Inr \<lparr>ep_path = ''/users/{id}'', ep_method = GET, operation_id = ''get_users'',
        ep_summary = [], ep_description = [], ep_tags = [],
        ep_parameters =
          [\<lparr>param_name = ''id'', param_location = PATH, param_type = INTEGER,
            param_description = [], param_required = False, param_default = VNone,
            param_example = VNone, param_enum = None\<rparr>,
           \<lparr>param_name = ''lang'', param_location = HEADER, param_type = STRING,
            param_description = [], param_required = False, param_default = VNone,
            param_example = VNone, param_enum = None\<rparr>],
        request_body = None, ep_responses = [],
        suggested_description = None, suggested_parameters = None\<rparr>"
  by (simp add: parse_operation_def and_then_def as_dict_def parse_parameters_def
        parse_parameter_def follow_ref_def map_location_def map_type_def strict_pydantic_def
        validate_opt_str_list_def validate_str_list_def dict_get_def dict_get_default_def
        parse_responses_def merge_parameters_def generate_operation_id_def
        remove_braced.simps py_lower_def Let_def)

text \<open>
  C7. Whenever \<open>_parse_operation\<close> returns an endpoint, its parameter list is the merge of
  the path-level list with the parsed operation-level list, keyed by name: the names in it
  are distinct and are those of both lists; the entry of a name is the last
  operation-level declaration of that name if there is one, and the last path-level
  declaration of it otherwise. So an entry whose name an operation-level parameter
  declares is an operation-level declaration, with its own location, type, required flag
  and default, and the path-level one is not in the list; every path-level name that no
  operation-level parameter declares keeps a path-level declaration, which is the
  parameter itself when the path-level names are distinct.
\<close>

theorem parse_operation_merges_parameters:
  assumes "parse_operation rt pyd path m operation path_params components = Inr endpoint"
  shows "\<exists>od op_params.
           operation = VDict od \<and>
           parse_parameters pyd (dict_get_default od ''parameters'' (VList [])) components =
             Inr op_params \<and>
           ep_parameters endpoint = merge_parameters path_params op_params \<and>
           distinct (map param_name (ep_parameters endpoint)) \<and>
           param_name ` set (ep_parameters endpoint) =
             param_name ` set path_params \<union> param_name ` set op_params \<and>
           (\<forall>n. find (\<lambda>p. param_name p = n) (ep_parameters endpoint) =
                  (case find (\<lambda>p. param_name p = n) (rev op_params) of
                     Some q \<Rightarrow> Some q
                   | None \<Rightarrow> find (\<lambda>p. param_name p = n) (rev path_params))) \<and>
           (\<forall>p\<in>set (ep_parameters endpoint).
              param_name p \<in> param_name ` set op_params \<longrightarrow> p \<in> set op_params) \<and>
           (\<forall>p\<in>set path_params. param_name p \<notin> param_name ` set op_params \<longrightarrow>
              (\<exists>p'\<in>set (ep_parameters endpoint).
                 param_name p' = param_name p \<and> p' \<in> set path_params)) \<and>
           (distinct (map param_name path_params) \<longrightarrow>
              (\<forall>p\<in>set path_params. param_name p \<notin> param_name ` set op_params \<longrightarrow>
                 p \<in> set (ep_parameters endpoint)))"
proof -
  from parse_operation_parameters [OF assms] obtain od op_params where
    od: "operation = VDict od"
    and op: "parse_parameters pyd (dict_get_default od ''parameters'' (VList [])) components =
             Inr op_params"
    and ep: "ep_parameters endpoint = merge_parameters path_params op_params"
    by blast
  have "distinct (map param_name (ep_parameters endpoint))"
    unfolding ep by (rule merge_parameters_distinct)
  moreover have "param_name ` set (ep_parameters endpoint) =
             param_name ` set path_params \<union> param_name ` set op_params"
    unfolding ep by (rule merge_parameters_names)
  moreover have "\<forall>n. find (\<lambda>p. param_name p = n) (ep_parameters endpoint) =
                  (case find (\<lambda>p. param_name p = n) (rev op_params) of
                     Some q \<Rightarrow> Some q
                   | None \<Rightarrow> find (\<lambda>p. param_name p = n) (rev path_params))"
    unfolding ep by (simp only: merge_parameters_lookup) simp
  moreover have "\<forall>p\<in>set (ep_parameters endpoint).
              param_name p \<in> param_name ` set op_params \<longrightarrow> p \<in> set op_params"
    unfolding ep using merge_parameters_operation_wins by blast
  moreover have "\<forall>p\<in>set path_params. param_name p \<notin> param_name ` set op_params \<longrightarrow>
              (\<exists>p'\<in>set (ep_parameters endpoint).
                 param_name p' = param_name p \<and> p' \<in> set path_params)"
    unfolding ep using merge_parameters_path_retained by blast
  moreover have "distinct (map param_name path_params) \<longrightarrow>
              (\<forall>p\<in>set path_params. param_name p \<notin> param_name ` set op_params \<longrightarrow>
                 p \<in> set (ep_parameters endpoint))"
    unfolding ep using merge_parameters_path_kept by blast
  ultimately show ?thesis
    using od op ep by blast
qed

theorem parse_operation_merges_parameters_witness:
  "map_sum id ep_parameters
     (parse_operation example_runtime strict_pydantic ''/users/{id}'' GET
        (VDict [(''parameters'', VList
           [VDict [(''name'', VStr ''id''), (''in'', VStr ''path''), (''required'', VBool False),
                   (''schema'', VDict [(''type'', VStr ''integer'')])]])])
        [\<lparr>param_name = ''id'', param_location = PATH, param_type = STRING,
          param_description = [], param_required = True, param_default = VNone,
          param_example = VNone, param_enum = None\<rparr>,
         \<lparr>param_name = ''lang'', param_location = HEADER, param_type = STRING,
          param_description = [], param_required = False, param_default = VNone,
          param_example = VNone, param_enum = None\<rparr>]
        (VDict [])) =
   Inr [\<lparr>param_name = ''id'', param_location = PATH, param_type = INTEGER,
         param_description = [], param_required = False, param_default = VNone,
         param_example = VNone, param_enum = None\<rparr>,
        \<lparr>param_name = ''lang'', param_location = HEADER, param_type = STRING,
         param_description = [], param_required = False, param_default = VNone,
         param_example = VNone, param_enum = None\<rparr>]"
  using parse_operation_merges_parameters [OF parse_operation_example]
  by (simp add: parse_operation_example)

section \<open>Properties of parse\<close>

lemma validate_version_ok:
  "map_of spec ''openapi'' = Some (VStr v) \<Longrightarrow> major_minor v \<in> {''3.0'', ''3.1''} \<Longrightarrow>
   validate_version spec = Inr ()"
proof -
  assume m: "map_of spec ''openapi'' = Some (VStr v)" and mm: "major_minor v \<in> {''3.0'', ''3.1''}"
  have "v \<noteq> []"
  proof
    assume "v = []"
    with mm show False by (simp add: major_minor_def)
  qed
  with m mm show ?thesis
    by (auto simp: validate_version_def dict_get_default_def Let_def)
qed

lemma parse_spec_example:
  "parse_spec example_runtime strict_pydantic
     [(''openapi'', VStr ''3.0.3''), (''info'', VDict [(''title'', VStr ''Shop'')]),
      (''paths'', VDict [(''/users'', VDict [(''get'', VDict [])])])] =
   Inr \<lparr>spec_title = ''Shop'', spec_version = ''1.0.0'', spec_description = [], base_url = [],
        endpoints =
          [\<lparr>ep_path = ''/users'', ep_method = GET, operation_id = ''get_users'',
            ep_summary = [], ep_description = [], ep_tags = [], ep_parameters = [],
            request_body = None, ep_responses = [],
            suggested_description = None, suggested_parameters = None\<rparr>],
        servers = [], security_schemes = [],
        original_spec = Some
          [(''openapi'', VStr ''3.0.3''), (''info'', VDict [(''title'', VStr ''Shop'')]),
           (''paths'', VDict [(''/users'', VDict [(''get'', VDict [])])])]\<rparr>"
  by (simp add: parse_spec_def and_then_def as_dict_def parse_paths_def parse_operation_def
        parse_parameters_def parse_responses_def merge_parameters_def generate_operation_id_def
        remove_braced.simps py_lower_def Let_def strict_pydantic_def validate_dict_def
        validate_str_list_def dict_get_default_def)

text \<open>
  C6, as amended. \<open>parse\<close> raises an \<open>OpenAPIParserError\<close> when the decoder raises
  \<open>YAMLError\<close> or \<open>JSONDecodeError\<close>, when the decoded document is not a dict, when the
  \<open>openapi\<close> entry is missing or false (empty), and when it is a text whose major.minor is
  neither \<open>3.0\<close> nor \<open>3.1\<close>. For a dict whose \<open>openapi\<close> entry is a text with major.minor
  \<open>3.0\<close> or \<open>3.1\<close>, the outcome of \<open>parse\<close> is the outcome of \<open>_parse_spec\<close> on the document:
  the \<open>APISpec\<close>, or the exception raised while the sections of the document are read.
  (An \<open>openapi\<close> entry that is not a text is left out: see \<open>parse_number_version\<close>.)
\<close>

theorem parse_outcomes:
  "(\<forall>e. decode_content dec content fmt = Inl e \<longrightarrow>
        exn_kind_of e = YAMLError \<or> exn_kind_of e = JSONDecodeError \<longrightarrow>
        (\<exists>msg. parse dec rt pyd content fmt = Inl (Exn OpenAPIParserError msg))) \<and>
   (\<forall>doc. decode_content dec content fmt = Inr doc \<longrightarrow> (\<forall>spec. doc \<noteq> VDict spec) \<longrightarrow>
        parse dec rt pyd content fmt =
          Inl (Exn OpenAPIParserError ''API spec must be a valid object/dictionary'')) \<and>
   (\<forall>spec. decode_content dec content fmt = Inr (VDict spec) \<longrightarrow>
        \<not> py_truthy (dict_get_default spec ''openapi'' (VStr [])) \<longrightarrow>
        parse dec rt pyd content fmt =
          Inl (Exn OpenAPIParserError (''Missing '' @ quoted ''openapi'' @ '' version field''))) \<and>
   (\<forall>spec v. decode_content dec content fmt = Inr (VDict spec) \<longrightarrow>
        map_of spec ''openapi'' = Some (VStr v) \<longrightarrow> major_minor v \<notin> {''3.0'', ''3.1''} \<longrightarrow>
        (\<exists>msg. parse dec rt pyd content fmt = Inl (Exn OpenAPIParserError msg))) \<and>
   (\<forall>spec v. decode_content dec content fmt = Inr (VDict spec) \<longrightarrow>
        map_of spec ''openapi'' = Some (VStr v) \<longrightarrow> major_minor v \<in> {''3.0'', ''3.1''} \<longrightarrow>
        parse dec rt pyd content fmt = parse_spec rt pyd spec)"
proof (intro conjI allI impI)
  fix e
  assume "decode_content dec content fmt = Inl e"
    and "exn_kind_of e = YAMLError \<or> exn_kind_of e = JSONDecodeError"
  then show "\<exists>msg. parse dec rt pyd content fmt = Inl (Exn OpenAPIParserError msg)"
    by (auto simp: parse_def)
next
  fix doc
  assume "decode_content dec content fmt = Inr doc" and "\<forall>spec. doc \<noteq> VDict spec"
  then show "parse dec rt pyd content fmt =
          Inl (Exn OpenAPIParserError ''API spec must be a valid object/dictionary'')"
    by (cases doc) (simp_all add: parse_def)
next
  fix spec
  assume "decode_content dec content fmt = Inr (VDict spec)"
    and "\<not> py_truthy (dict_get_default spec ''openapi'' (VStr []))"
  then show "parse dec rt pyd content fmt =
          Inl (Exn OpenAPIParserError (''Missing '' @ quoted ''openapi'' @ '' version field''))"
    by (simp add: parse_def validate_version_def and_then_def)
next
  fix spec v
  assume d: "decode_content dec content fmt = Inr (VDict spec)"
    and m: "map_of spec ''openapi'' = Some (VStr v)" and mm: "major_minor v \<notin> {''3.0'', ''3.1''}"
  show "\<exists>msg. parse dec rt pyd content fmt = Inl (Exn OpenAPIParserError msg)"
  proof (cases "v = []")
    case True
    with d m show ?thesis
      by (simp add: parse_def validate_version_def and_then_def dict_get_default_def)
  next
    case False
    with d m mm show ?thesis
      by (simp add: parse_def validate_version_def and_then_def dict_get_default_def)
  qed
next
  fix spec v
  assume d: "decode_content dec content fmt = Inr (VDict spec)"
    and m: "map_of spec ''openapi'' = Some (VStr v)" and mm: "major_minor v \<in> {''3.0'', ''3.1''}"
  from validate_version_ok [OF m mm] d
  show "parse dec rt pyd content fmt = parse_spec rt pyd spec"
    by (simp add: parse_def and_then_def)
qed

theorem parse_outcomes_witness:
  "parse
     \<lparr>yaml_safe_load = (\<lambda>s. Inr (VDict
        [(''openapi'', VStr ''3.0.3''), (''info'', VDict [(''title'', VStr ''Shop'')]),
         (''paths'', VDict [(''/users'', VDict [(''get'', VDict [])])])])),
      json_loads = (\<lambda>s. Inl (Exn JSONDecodeError ''Expecting value''))\<rparr>
     example_runtime strict_pydantic
     ''{openapi: 3.0.3, info: {title: Shop}, paths: {/users: {get: {}}}}'' ''yaml'' =
   Inr \<lparr>spec_title = ''Shop'', spec_version = ''1.0.0'', spec_description = [], base_url = [],
        endpoints =
          [\<lparr>ep_path = ''/users'', ep_method = GET, operation_id = ''get_users'',
            ep_summary = [], ep_description = [], ep_tags = [], ep_parameters = [],
            request_body = None, ep_responses = [],
            suggested_description = None, suggested_parameters = None\<rparr>],
        servers = [], security_schemes = [],
        original_spec = Some
          [(''openapi'', VStr ''3.0.3''), (''info'', VDict [(''title'', VStr ''Shop'')]),
           (''paths'', VDict [(''/users'', VDict [(''get'', VDict [])])])]\<rparr>"
proof -
  let ?spec = "[(''openapi'', VStr ''3.0.3''), (''info'', VDict [(''title'', VStr ''Shop'')]),
         (''paths'', VDict [(''/users'', VDict [(''get'', VDict [])])])]"
  let ?dec = "\<lparr>yaml_safe_load = (\<lambda>s. Inr (VDict ?spec)),
      json_loads = (\<lambda>s. Inl (Exn JSONDecodeError ''Expecting value''))\<rparr>"
  let ?content = "''{openapi: 3.0.3, info: {title: Shop}, paths: {/users: {get: {}}}}''"
  have d: "decode_content ?dec ?content ''yaml'' = Inr (VDict ?spec)"
    by (simp add: decode_content_def py_lower_def)
  have m: "map_of ?spec ''openapi'' = Some (VStr ''3.0.3'')" by simp
  have mm: "major_minor ''3.0.3'' \<in> {''3.0'', ''3.1''}" by (simp add: major_minor_def)
  from parse_outcomes [of ?dec ?content "''yaml''" example_runtime strict_pydantic] d m mm
  have "parse ?dec example_runtime strict_pydantic ?content ''yaml'' =
        parse_spec example_runtime strict_pydantic ?spec"
    by blast
  then show ?thesis
    by (simp only: parse_spec_example)
qed

text \<open>
  C6 as stated fails on a document that passes the three checks and whose \<open>paths\<close> section
  is a list: \<open>paths.items()\<close> raises an \<open>AttributeError\<close>, so no \<open>APISpec\<close> is returned, and
  the exception is not an \<open>OpenAPIParserError\<close>.
\<close>

theorem parse_malformed_paths_counterexample:
  "parse
     \<lparr>yaml_safe_load = (\<lambda>s. Inr (VDict [(''openapi'', VStr ''3.0.0''), (''paths'', VList [])])),
      json_loads = (\<lambda>s. Inl (Exn JSONDecodeError ''Expecting value''))\<rparr>
     example_runtime strict_pydantic ''{openapi: 3.0.0, paths: []}'' ''yaml'' =
   Inl (Exn AttributeError
         ([CHR 0x27] @ ''list'' @ [CHR 0x27] @ '' object has no attribute '' @
          [CHR 0x27] @ ''items'' @ [CHR 0x27])) \<and>
   major_minor ''3.0.0'' = ''3.0''"
  by (simp add: parse_def decode_content_def py_lower_def validate_version_def major_minor_def
        dict_get_default_def and_then_def parse_spec_def parse_paths_def as_dict_def
        attribute_error_def quoted_def Let_def)

text \<open>
  An \<open>openapi\<close> entry that is a number (YAML reads \<open>openapi: 3.0\<close> as a float) has no
  \<open>split\<close>: \<open>_validate_version\<close> raises an \<open>AttributeError\<close>, not an \<open>OpenAPIParserError\<close>.
\<close>

lemma parse_number_version:
  "parse
     \<lparr>yaml_safe_load = (\<lambda>s. Inr (VDict [(''openapi'', VFloat (Finite 3))])),
      json_loads = (\<lambda>s. Inl (Exn JSONDecodeError ''Expecting value''))\<rparr>
     rt pyd ''{openapi: 3.0}'' ''yaml'' =
   Inl (Exn AttributeError
         ([CHR 0x27] @ ''float'' @ [CHR 0x27] @ '' object has no attribute '' @
          [CHR 0x27] @ ''split'' @ [CHR 0x27]))"
  by (simp add: parse_def decode_content_def py_lower_def validate_version_def
        dict_get_default_def and_then_def attribute_error_def quoted_def Let_def)


end
